theory Spec2Isabelle
  imports Complex_Main "HOL-Library.Sublist" "HOL-Library.AList" "HOL-Library.Word"
begin

unbundle bit_operations_syntax

section \<open>Python values\<close>

text \<open>
  The program is Python: the intermediate and unified records are dictionaries whose
  values are dynamically typed, and the values that arrive from remote services are
  arbitrary JSON. A value is one of the following; a Python \<^verbatim>\<open>str\<close> is modelled by the
  list of bytes of its UTF-8 encoding, a finite \<^verbatim>\<open>float\<close> by the real number it denotes
  (the program never computes with floats: it copies them and compares them with zero).
\<close>

datatype pyval =
    PNone
  | PBool bool
  | PInt int
  | PFloat real
  | PStr string
  | PList "pyval list"
  | PDict "(string \<times> pyval) list"

text \<open>
  A dictionary with string keys is an association list with distinct keys, in insertion
  order. \<^verbatim>\<open>d[k] = v\<close> is \<^const>\<open>AList.update\<close>: an existing key keeps its place, a new key
  goes to the end.
\<close>

type_synonym pydict = "(string \<times> pyval) list"

datatype error = KeyError | ValueError | TypeError | DatabaseError

text \<open>\<^verbatim>\<open>d.get(k)\<close> and \<^verbatim>\<open>d.get(k, default)\<close>.\<close>

definition dict_get :: "pydict \<Rightarrow> string \<Rightarrow> pyval" where
  "dict_get d k = (case map_of d k of None \<Rightarrow> PNone | Some v \<Rightarrow> v)"

definition dict_get_default :: "pydict \<Rightarrow> string \<Rightarrow> pyval \<Rightarrow> pyval" where
  "dict_get_default d k dflt = (case map_of d k of None \<Rightarrow> dflt | Some v \<Rightarrow> v)"

text \<open>Truth value of a Python object, as \<^verbatim>\<open>if v\<close>, \<^verbatim>\<open>not v\<close> and \<^verbatim>\<open>any\<close> read it.\<close>

fun py_truthy :: "pyval \<Rightarrow> bool" where
  "py_truthy PNone = False"
| "py_truthy (PBool b) = b"
| "py_truthy (PInt i) = (i \<noteq> 0)"
| "py_truthy (PFloat r) = (r \<noteq> 0)"
| "py_truthy (PStr s) = (s \<noteq> [])"
| "py_truthy (PList xs) = (xs \<noteq> [])"
| "py_truthy (PDict kvs) = (kvs \<noteq> [])"

text \<open>
  The numeric value of a Python number. \<^verbatim>\<open>bool\<close> is a subtype of \<^verbatim>\<open>int\<close>:
  \<^verbatim>\<open>False == 0\<close> and \<^verbatim>\<open>True == 1\<close> hold, as does \<^verbatim>\<open>0.0 == 0\<close>.
\<close>

fun py_num :: "pyval \<Rightarrow> real option" where
  "py_num (PBool b) = Some (if b then 1 else 0)"
| "py_num (PInt i) = Some (real_of_int i)"
| "py_num (PFloat r) = Some r"
| "py_num _ = None"

text \<open>
  \<^verbatim>\<open>v in (None, "", 0)\<close>: membership in a tuple compares with \<^verbatim>\<open>==\<close>. \<^verbatim>\<open>None\<close> equals
  only \<^verbatim>\<open>None\<close>, the empty string equals only the empty string, and \<^verbatim>\<open>0\<close> equals
  every number whose value is zero; lists and dictionaries equal none of the three.
\<close>

definition in_none_empty_zero :: "pyval \<Rightarrow> bool" where
  "in_none_empty_zero v = (v = PNone \<or> v = PStr [] \<or> py_num v = Some 0)"

text \<open>\<^verbatim>\<open>sep.join(items)\<close> for strings.\<close>

fun join :: "string \<Rightarrow> string list \<Rightarrow> string" where
  "join sep [] = []"
| "join sep [x] = x"
| "join sep (x # y # ys) = x @ sep @ join sep (y # ys)"

text \<open>\<^verbatim>\<open>sep.join(items)\<close> for arbitrary values: a \<^verbatim>\<open>TypeError\<close> unless every item is a string.\<close>

fun str_items :: "pyval list \<Rightarrow> string list option" where
  "str_items [] = Some []"
| "str_items (PStr s # vs) = (case str_items vs of None \<Rightarrow> None | Some ss \<Rightarrow> Some (s # ss))"
| "str_items (_ # vs) = None"

definition py_join :: "string \<Rightarrow> pyval list \<Rightarrow> error + string" where
  "py_join sep vs = (case str_items vs of None \<Rightarrow> Inl TypeError | Some ss \<Rightarrow> Inr (join sep ss))"

section \<open>The merge policy\<close>

text \<open>
  \<^verbatim>\<open>_merge_unified(base, inc)\<close>: an empty \<^verbatim>\<open>inc\<close> returns \<^verbatim>\<open>base\<close>; otherwise the items
  of \<^verbatim>\<open>inc\<close> are visited in order, and an item is stored in \<^verbatim>\<open>base\<close> when its key is not
  in \<^verbatim>\<open>base\<close> or \<^verbatim>\<open>base.get(key) in (None, "", 0)\<close>.
\<close>

definition merge_step :: "pydict \<Rightarrow> string \<times> pyval \<Rightarrow> pydict" where
  "merge_step base kv =
     (if map_of base (fst kv) = None \<or> in_none_empty_zero (dict_get base (fst kv))
      then AList.update (fst kv) (snd kv) base else base)"

definition merge_unified :: "pydict \<Rightarrow> pydict \<Rightarrow> pydict" where
  "merge_unified base inc = (if inc = [] then base else foldl merge_step base inc)"

text \<open>\<^verbatim>\<open>_unified_template()\<close>: the seventeen keys of the unified schema, each the empty string.\<close>

definition schema_keys :: "string list" where
  "schema_keys =
     [''ip'', ''addr'', ''as_number'', ''as_name'', ''as_info'', ''country_code'',
      ''country_name'', ''registered_country_code'', ''registered_country_name'',
      ''latitude'', ''longitude'', ''province'', ''city'', ''regions'', ''type'',
      ''timezone'', ''isp'']"

definition unified_template :: pydict where
  "unified_template = map (\<lambda>k. (k, PStr [])) schema_keys"

section \<open>Network prefixes\<close>

text \<open>
  \<^verbatim>\<open>get_addr\<close> calls \<^verbatim>\<open>ipaddress.ip_network(f"{ip}/{mask}", strict=False)\<close> of the
  Python standard library and prints the network address. The part of the library
  (CPython 3.11) that this call runs is modelled here: the parsers of dotted-quad and
  colon-hexadecimal addresses, the prefix length, the netmask, and the printers.
  Addresses are integers, as in the library (Python's integers are unbounded).
\<close>

text \<open>\<^verbatim>\<open>s.split(c)\<close> for a one-character separator: never the empty list.\<close>

fun split_on :: "char \<Rightarrow> string \<Rightarrow> string list" where
  "split_on c [] = [[]]"
| "split_on c (x # xs) =
     (if x = c then [] # split_on c xs
      else (x # hd (split_on c xs)) # tl (split_on c xs))"

definition DEC_DIGITS :: string where
  "DEC_DIGITS = ''0123456789''"

definition HEX_DIGITS :: string where
  "HEX_DIGITS = ''0123456789ABCDEFabcdef''"

text \<open>The value of one digit character, in base 10 or 16.\<close>

definition digit_val :: "char \<Rightarrow> int" where
  "digit_val c =
     (case map_of (zip ''0123456789abcdefABCDEF''
                       [0, 1, 2, 3, 4, 5, 6, 7, 8, 9, 10, 11, 12, 13, 14, 15, 10, 11, 12, 13, 14, 15]) c of
        Some d \<Rightarrow> d
      | None \<Rightarrow> 0)"

text \<open>\<^verbatim>\<open>int(s, base)\<close> on a string already checked to consist of digits of the base.\<close>

definition int_of_digits :: "int \<Rightarrow> string \<Rightarrow> int" where
  "int_of_digits base s = foldl (\<lambda>a c. a * base + digit_val c) 0 s"

text \<open>
  \<^verbatim>\<open>str(n)\<close> and \<^verbatim>\<open>'%x' % n\<close> for a non-negative integer, \<^verbatim>\<open>str(i)\<close> for any
  integer.
\<close>

function str_base :: "int \<Rightarrow> int \<Rightarrow> string" where
  "str_base b n =
     (if b < 2 \<or> n < b then [''0123456789abcdef'' ! nat n]
      else str_base b (n div b) @ [''0123456789abcdef'' ! nat (n mod b)])"
  by pat_completeness auto
termination
proof (relation "measure (\<lambda>(b, n). nat n)")
  show "wf (measure (\<lambda>(b, n). nat n))" by simp
next
  fix b n :: int
  assume "\<not> (b < 2 \<or> n < b)"
  then have "2 \<le> b" and "b \<le> n" by simp_all
  then have "n div b < n" by (simp add: int_div_less_self)
  moreover have "0 < n" using \<open>2 \<le> b\<close> \<open>b \<le> n\<close> by simp
  ultimately show "((b, n div b), (b, n)) \<in> measure (\<lambda>(b, n). nat n)" by simp
qed

declare str_base.simps [simp del]

definition str_nat :: "int \<Rightarrow> string" where
  "str_nat n = str_base 10 n"

definition str_hex :: "int \<Rightarrow> string" where
  "str_hex n = str_base 16 n"

definition str_int :: "int \<Rightarrow> string" where
  "str_int i = (if i < 0 then CHR ''-'' # str_nat (- i) else str_nat i)"

subsection \<open>IPv4\<close>

text \<open>\<^verbatim>\<open>_BaseV4._parse_octet\<close>: a decimal number in 0..255, at most three digits, no leading zero.\<close>

definition parse_octet :: "string \<Rightarrow> int option" where
  "parse_octet octet_str =
     (if octet_str = [] then None
      else if \<not> list_all (\<lambda>c. c \<in> set DEC_DIGITS) octet_str then None
      else if length octet_str > 3 then None
      else if octet_str \<noteq> ''0'' \<and> hd octet_str = CHR ''0'' then None
      else if int_of_digits 10 octet_str > 255 then None
      else Some (int_of_digits 10 octet_str))"

text \<open>\<^verbatim>\<open>_BaseV4._ip_int_from_string\<close>: four octets, big-endian.\<close>

definition ip_int_from_string_v4 :: "string \<Rightarrow> int option" where
  "ip_int_from_string_v4 ip_str =
     (if ip_str = [] then None
      else let octets = split_on CHR ''.'' ip_str in
        if length octets \<noteq> 4 then None
        else (case those (map parse_octet octets) of
                None \<Rightarrow> None
              | Some bs \<Rightarrow> Some (foldl (\<lambda>a b. a * 256 + b) 0 bs)))"

text \<open>\<^verbatim>\<open>IPv4Address(address)\<close> for a string: a slash is refused.\<close>

definition IPv4Address :: "string \<Rightarrow> int option" where
  "IPv4Address addr_str =
     (if CHR ''/'' \<in> set addr_str then None else ip_int_from_string_v4 addr_str)"

text \<open>\<^verbatim>\<open>_BaseV4._string_from_ip_int\<close>: the four bytes in decimal, joined by dots.\<close>

definition string_from_ip_int_v4 :: "int \<Rightarrow> string" where
  "string_from_ip_int_v4 ip_int =
     join ''.'' (map (\<lambda>k. str_nat (ip_int div 256 ^ k mod 256)) [3, 2, 1, 0])"

text \<open>
  \<^verbatim>\<open>_ip_int_from_prefix\<close>: \<^verbatim>\<open>ALL_ONES ^ (ALL_ONES >> prefixlen)\<close>, for an address of
  \<open>bits\<close> bits.
\<close>

definition ip_int_from_prefix :: "nat \<Rightarrow> nat \<Rightarrow> int" where
  "ip_int_from_prefix bits prefixlen = (2 ^ bits - 1) XOR drop_bit prefixlen (2 ^ bits - 1)"

text \<open>
  \<^verbatim>\<open>_prefix_from_prefix_string\<close>: ASCII digits only, then the range check.
\<close>

definition prefix_from_prefix_string :: "nat \<Rightarrow> string \<Rightarrow> nat option" where
  "prefix_from_prefix_string bits prefixlen_str =
     (if prefixlen_str = [] \<or> \<not> list_all (\<lambda>c. c \<in> set DEC_DIGITS) prefixlen_str then None
      else if int_of_digits 10 prefixlen_str \<le> int bits
      then Some (nat (int_of_digits 10 prefixlen_str))
      else None)"

text \<open>
  \<^verbatim>\<open>_count_righthand_zero_bits\<close> and \<^verbatim>\<open>_prefix_from_ip_int\<close>: the prefix length of a
  netmask written as an address, refused when zeroes and ones are mixed.
\<close>

fun count_righthand_zero_bits :: "int \<Rightarrow> nat \<Rightarrow> nat" where
  "count_righthand_zero_bits number 0 = 0"
| "count_righthand_zero_bits number (Suc bits) =
     (if number = 0 then Suc bits
      else if odd number then 0
      else Suc (count_righthand_zero_bits (number div 2) bits))"

definition prefix_from_ip_int :: "nat \<Rightarrow> int \<Rightarrow> nat option" where
  "prefix_from_ip_int bits ip_int =
     (let trailing_zeroes = count_righthand_zero_bits ip_int bits;
          prefixlen = bits - trailing_zeroes
      in if drop_bit trailing_zeroes ip_int \<noteq> 2 ^ prefixlen - 1 then None else Some prefixlen)"

text \<open>
  \<^verbatim>\<open>_prefix_from_ip_string\<close> (IPv4 only): a dotted-quad netmask, or else a hostmask.
\<close>

definition prefix_from_ip_string :: "string \<Rightarrow> nat option" where
  "prefix_from_ip_string ip_str =
     (case ip_int_from_string_v4 ip_str of
        None \<Rightarrow> None
      | Some ip_int \<Rightarrow>
          (case prefix_from_ip_int 32 ip_int of
             Some p \<Rightarrow> Some p
           | None \<Rightarrow> prefix_from_ip_int 32 (ip_int XOR (2 ^ 32 - 1))))"

text \<open>\<^verbatim>\<open>IPv4Network._make_netmask\<close> for a string argument.\<close>

definition make_netmask_v4 :: "string \<Rightarrow> nat option" where
  "make_netmask_v4 arg =
     (case prefix_from_prefix_string 32 arg of
        Some p \<Rightarrow> Some p
      | None \<Rightarrow> prefix_from_ip_string arg)"

text \<open>\<^verbatim>\<open>_split_optional_netmask\<close>: at most one slash.\<close>

definition split_optional_netmask :: "string \<Rightarrow> string list option" where
  "split_optional_netmask address =
     (let addr = split_on CHR ''/'' address in if length addr > 2 then None else Some addr)"

text \<open>
  \<^verbatim>\<open>str(IPv4Network(address, strict=False).network_address)\<close>; \<open>None\<close> stands for
  \<^verbatim>\<open>AddressValueError\<close> and \<^verbatim>\<open>NetmaskValueError\<close>. Without a slash the prefix length is 32.
\<close>

definition IPv4Network :: "string \<Rightarrow> string option" where
  "IPv4Network address =
     (case split_optional_netmask address of
        None \<Rightarrow> None
      | Some parts \<Rightarrow>
          (case IPv4Address (hd parts) of
             None \<Rightarrow> None
           | Some packed \<Rightarrow>
               (case (if length parts > 1 then make_netmask_v4 (parts ! 1) else Some 32) of
                  None \<Rightarrow> None
                | Some prefixlen \<Rightarrow>
                    Some (string_from_ip_int_v4 (packed AND ip_int_from_prefix 32 prefixlen)))))"

subsection \<open>IPv6\<close>

text \<open>\<^verbatim>\<open>_BaseV6._parse_hextet\<close>: one to four hexadecimal digits.\<close>

definition parse_hextet :: "string \<Rightarrow> int option" where
  "parse_hextet hextet_str =
     (if \<not> list_all (\<lambda>c. c \<in> set HEX_DIGITS) hextet_str then None
      else if length hextet_str > 4 then None
      else if hextet_str = [] then None
      else Some (int_of_digits 16 hextet_str))"

text \<open>
  \<^verbatim>\<open>_BaseV6._ip_int_from_string\<close>. An IPv4-style last part is turned into two hextets;
  an empty part strictly inside the list marks the \<^verbatim>\<open>::\<close>, of which there is at most
  one; \<open>parts_hi\<close> parts are read before it and \<open>parts_lo\<close> after it.
\<close>

definition v4_suffix :: "string list \<Rightarrow> string list option" where
  "v4_suffix parts =
     (if CHR ''.'' \<in> set (last parts)
      then (case IPv4Address (last parts) of
              None \<Rightarrow> None
            | Some ipv4_int \<Rightarrow>
                Some (butlast parts @
                      [str_hex (drop_bit 16 ipv4_int AND 0xFFFF), str_hex (ipv4_int AND 0xFFFF)]))
      else Some parts)"

definition hextets_value :: "int \<Rightarrow> string list \<Rightarrow> int option" where
  "hextets_value ip_int hs =
     (case those (map parse_hextet hs) of
        None \<Rightarrow> None
      | Some vs \<Rightarrow> Some (foldl (\<lambda>a h. push_bit 16 a OR h) ip_int vs))"

definition ip_int_from_string_v6 :: "string \<Rightarrow> int option" where
  "ip_int_from_string_v6 ip_str =
     (if ip_str = [] then None
      else if length (split_on CHR '':'' ip_str) < 3 then None
      else (case v4_suffix (split_on CHR '':'' ip_str) of
        None \<Rightarrow> None
      | Some parts \<Rightarrow>
          if length parts > 9 then None
          else (case filter (\<lambda>i. parts ! i = []) [1 ..< length parts - 1] of
            [] \<Rightarrow>
              if length parts \<noteq> 8 then None
              else if hd parts = [] then None
              else if last parts = [] then None
              else hextets_value 0 parts
          | [skip_index] \<Rightarrow>
              (let parts_hi = (if hd parts = [] then skip_index - 1 else skip_index);
                   parts_lo = (if last parts = [] then length parts - skip_index - 2
                               else length parts - skip_index - 1)
               in if hd parts = [] \<and> parts_hi \<noteq> 0 then None
                  else if last parts = [] \<and> parts_lo \<noteq> 0 then None
                  else if parts_hi + parts_lo > 7 then None
                  else (case hextets_value 0 (take parts_hi parts) of
                     None \<Rightarrow> None
                   | Some hi \<Rightarrow>
                       hextets_value (push_bit (16 * (8 - (parts_hi + parts_lo))) hi)
                         (drop (length parts - parts_lo) parts)))
          | _ \<Rightarrow> None)))"

text \<open>
  \<^verbatim>\<open>_split_scope_id\<close>: \<^verbatim>\<open>ip_str.partition('%')\<close>; a scope id is neither empty nor
  contains a second percent sign.
\<close>

definition split_scope_id :: "string \<Rightarrow> (string \<times> string option) option" where
  "split_scope_id ip_str =
     (let addr = takeWhile (\<lambda>c. c \<noteq> CHR ''%'') ip_str;
          rest = dropWhile (\<lambda>c. c \<noteq> CHR ''%'') ip_str
      in if rest = [] then Some (addr, None)
         else if tl rest = [] \<or> CHR ''%'' \<in> set (tl rest) then None
         else Some (addr, Some (tl rest)))"

text \<open>\<^verbatim>\<open>IPv6Address(address)\<close> for a string: the integer and the scope id.\<close>

definition IPv6Address :: "string \<Rightarrow> (int \<times> string option) option" where
  "IPv6Address addr_str =
     (if CHR ''/'' \<in> set addr_str then None
      else (case split_scope_id addr_str of
              None \<Rightarrow> None
            | Some (a, scope_id) \<Rightarrow>
                (case ip_int_from_string_v6 a of
                   None \<Rightarrow> None
                 | Some ip_int \<Rightarrow> Some (ip_int, scope_id))))"

text \<open>
  \<^verbatim>\<open>_compress_hextets\<close>: the scan finds the first longest run of \<^verbatim>\<open>'0'\<close> hextets
  (\<open>-1\<close> is the library's marker for no run); a run of at least two is replaced by one
  empty string, with a further empty string at an end of the list that the run touches.
\<close>

fun compress_scan :: "string list \<Rightarrow> int \<Rightarrow> int \<Rightarrow> int \<Rightarrow> int \<Rightarrow> int \<Rightarrow> int \<times> int" where
  "compress_scan [] index best_start best_len start len = (best_start, best_len)"
| "compress_scan (hextet # hextets) index best_start best_len start len =
     (if hextet = ''0''
      then (if len + 1 > best_len
            then compress_scan hextets (index + 1)
                   (if start = - 1 then index else start) (len + 1)
                   (if start = - 1 then index else start) (len + 1)
            else compress_scan hextets (index + 1) best_start best_len
                   (if start = - 1 then index else start) (len + 1))
      else compress_scan hextets (index + 1) best_start best_len (- 1) 0)"

definition compress_hextets :: "string list \<Rightarrow> string list" where
  "compress_hextets hextets =
     (case compress_scan hextets 0 (- 1) 0 (- 1) 0 of
        (best_start, best_len) \<Rightarrow>
          if best_len > 1
          then (let best_end = best_start + best_len;
                    hextets1 = (if best_end = int (length hextets) then hextets @ [[]] else hextets);
                    hextets2 = take (nat best_start) hextets1 @ [[]] @ drop (nat best_end) hextets1
                in if best_start = 0 then [] # hextets2 else hextets2)
          else hextets)"

text \<open>\<^verbatim>\<open>_BaseV6._string_from_ip_int\<close>: eight hextets in hexadecimal, compressed, joined by colons.\<close>

definition string_from_ip_int_v6 :: "int \<Rightarrow> string" where
  "string_from_ip_int_v6 ip_int =
     join '':'' (compress_hextets
       (map (\<lambda>k. str_hex (ip_int div 65536 ^ k mod 65536)) [7, 6, 5, 4, 3, 2, 1, 0]))"

text \<open>
  \<^verbatim>\<open>str(IPv6Network(address, strict=False).network_address)\<close>. When the address has
  host bits set the library builds a new address from the masked integer, which has no
  scope id; otherwise the parsed address, scope id included, is the network address.
\<close>

definition IPv6Network :: "string \<Rightarrow> string option" where
  "IPv6Network address =
     (case split_optional_netmask address of
        None \<Rightarrow> None
      | Some parts \<Rightarrow>
          (case IPv6Address (hd parts) of
             None \<Rightarrow> None
           | Some (packed, scope_id) \<Rightarrow>
               (case (if length parts > 1 then prefix_from_prefix_string 128 (parts ! 1)
                      else Some 128) of
                  None \<Rightarrow> None
                | Some prefixlen \<Rightarrow>
                    if packed AND ip_int_from_prefix 128 prefixlen \<noteq> packed
                    then Some (string_from_ip_int_v6 (packed AND ip_int_from_prefix 128 prefixlen))
                    else (case scope_id of
                            None \<Rightarrow> Some (string_from_ip_int_v6 packed)
                          | Some sc \<Rightarrow> Some (string_from_ip_int_v6 packed @ ''%'' @ sc)))))"

text \<open>
  \<^verbatim>\<open>ipaddress.ip_network(address, strict=False)\<close>, printed: IPv4 first, then IPv6, then
  \<^verbatim>\<open>ValueError\<close>.
\<close>

definition ip_network_address :: "string \<Rightarrow> error + string" where
  "ip_network_address address =
     (case IPv4Network address of
        Some s \<Rightarrow> Inr s
      | None \<Rightarrow> (case IPv6Network address of Some s \<Rightarrow> Inr s | None \<Rightarrow> Inl ValueError))"

text \<open>\<^verbatim>\<open>get_addr(ip, mask)\<close>; the mask length is called \<open>mask_len\<close> here.\<close>

definition get_addr :: "string \<Rightarrow> int \<Rightarrow> error + string" where
  "get_addr ip mask_len =
     (case ip_network_address (ip @ ''/'' @ str_int mask_len) of
        Inl e \<Rightarrow> Inl e
      | Inr first_ip \<Rightarrow> Inr (first_ip @ ''/'' @ str_int mask_len))"

section \<open>Operator labels\<close>

text \<open>
  The labels of the source are Chinese; each is written here as the bytes of its UTF-8
  encoding and named by its transliteration, with the code points in the comment.
\<close>

abbreviation label_dongfang_youxian :: string where \<comment> \<open>U+4E1C U+65B9 U+6709 U+7EBF\<close>
  "label_dongfang_youxian \<equiv> [CHR 0xE4, CHR 0xB8, CHR 0x9C, CHR 0xE6, CHR 0x96, CHR 0xB9, CHR 0xE6, CHR 0x9C, CHR 0x89, CHR 0xE7, CHR 0xBA, CHR 0xBF]"

abbreviation label_zhongguo_changcheng :: string where \<comment> \<open>U+4E2D U+56FD U+957F U+57CE\<close>
  "label_zhongguo_changcheng \<equiv> [CHR 0xE4, CHR 0xB8, CHR 0xAD, CHR 0xE5, CHR 0x9B, CHR 0xBD, CHR 0xE9, CHR 0x95, CHR 0xBF, CHR 0xE5, CHR 0x9F, CHR 0x8E]"

abbreviation label_tianwei_shixun :: string where \<comment> \<open>U+5929 U+5A01 U+89C6 U+8BAF\<close>
  "label_tianwei_shixun \<equiv> [CHR 0xE5, CHR 0xA4, CHR 0xA9, CHR 0xE5, CHR 0xA8, CHR 0x81, CHR 0xE8, CHR 0xA7, CHR 0x86, CHR 0xE8, CHR 0xAE, CHR 0xAF]"

abbreviation label_gehua_youxian :: string where \<comment> \<open>U+6B4C U+534E U+6709 U+7EBF\<close>
  "label_gehua_youxian \<equiv> [CHR 0xE6, CHR 0xAD, CHR 0x8C, CHR 0xE5, CHR 0x8D, CHR 0x8E, CHR 0xE6, CHR 0x9C, CHR 0x89, CHR 0xE7, CHR 0xBA, CHR 0xBF]"

abbreviation label_keji_wang :: string where \<comment> \<open>U+79D1 U+6280 U+7F51\<close>
  "label_keji_wang \<equiv> [CHR 0xE7, CHR 0xA7, CHR 0x91, CHR 0xE6, CHR 0x8A, CHR 0x80, CHR 0xE7, CHR 0xBD, CHR 0x91]"

abbreviation label_huashu :: string where \<comment> \<open>U+534E U+6570\<close>
  "label_huashu \<equiv> [CHR 0xE5, CHR 0x8D, CHR 0x8E, CHR 0xE6, CHR 0x95, CHR 0xB0]"

abbreviation label_zhongguancun :: string where \<comment> \<open>U+4E2D U+5173 U+6751\<close>
  "label_zhongguancun \<equiv> [CHR 0xE4, CHR 0xB8, CHR 0xAD, CHR 0xE5, CHR 0x85, CHR 0xB3, CHR 0xE6, CHR 0x9D, CHR 0x91]"

abbreviation label_jiaoyu_wang :: string where \<comment> \<open>U+6559 U+80B2 U+7F51\<close>
  "label_jiaoyu_wang \<equiv> [CHR 0xE6, CHR 0x95, CHR 0x99, CHR 0xE8, CHR 0x82, CHR 0xB2, CHR 0xE7, CHR 0xBD, CHR 0x91]"

abbreviation label_zhongguo_yidong :: string where \<comment> \<open>U+4E2D U+56FD U+79FB U+52A8\<close>
  "label_zhongguo_yidong \<equiv> [CHR 0xE4, CHR 0xB8, CHR 0xAD, CHR 0xE5, CHR 0x9B, CHR 0xBD, CHR 0xE7, CHR 0xA7, CHR 0xBB, CHR 0xE5, CHR 0x8A, CHR 0xA8]"

abbreviation label_zhongguo_dianxin :: string where \<comment> \<open>U+4E2D U+56FD U+7535 U+4FE1\<close>
  "label_zhongguo_dianxin \<equiv> [CHR 0xE4, CHR 0xB8, CHR 0xAD, CHR 0xE5, CHR 0x9B, CHR 0xBD, CHR 0xE7, CHR 0x94, CHR 0xB5, CHR 0xE4, CHR 0xBF, CHR 0xA1]"

abbreviation label_zhongguo_liantong :: string where \<comment> \<open>U+4E2D U+56FD U+8054 U+901A\<close>
  "label_zhongguo_liantong \<equiv> [CHR 0xE4, CHR 0xB8, CHR 0xAD, CHR 0xE5, CHR 0x9B, CHR 0xBD, CHR 0xE8, CHR 0x81, CHR 0x94, CHR 0xE9, CHR 0x80, CHR 0x9A]"

abbreviation label_jinshan_yun :: string where \<comment> \<open>U+91D1 U+5C71 U+4E91\<close>
  "label_jinshan_yun \<equiv> [CHR 0xE9, CHR 0x87, CHR 0x91, CHR 0xE5, CHR 0xB1, CHR 0xB1, CHR 0xE4, CHR 0xBA, CHR 0x91]"

abbreviation label_youke_yun :: string where \<comment> \<open>U+4F18 U+523B U+4E91\<close>
  "label_youke_yun \<equiv> [CHR 0xE4, CHR 0xBC, CHR 0x98, CHR 0xE5, CHR 0x88, CHR 0xBB, CHR 0xE4, CHR 0xBA, CHR 0x91]"

abbreviation label_wangyi_yun :: string where \<comment> \<open>U+7F51 U+6613 U+4E91\<close>
  "label_wangyi_yun \<equiv> [CHR 0xE7, CHR 0xBD, CHR 0x91, CHR 0xE6, CHR 0x98, CHR 0x93, CHR 0xE4, CHR 0xBA, CHR 0x91]"

abbreviation label_ali_yun :: string where \<comment> \<open>U+963F U+91CC U+4E91\<close>
  "label_ali_yun \<equiv> [CHR 0xE9, CHR 0x98, CHR 0xBF, CHR 0xE9, CHR 0x87, CHR 0x8C, CHR 0xE4, CHR 0xBA, CHR 0x91]"

abbreviation label_ali_yun_guoji :: string where \<comment> \<open>U+963F U+91CC U+4E91 U+56FD U+9645\<close>
  "label_ali_yun_guoji \<equiv> [CHR 0xE9, CHR 0x98, CHR 0xBF, CHR 0xE9, CHR 0x87, CHR 0x8C, CHR 0xE4, CHR 0xBA, CHR 0x91, CHR 0xE5, CHR 0x9B, CHR 0xBD, CHR 0xE9, CHR 0x99, CHR 0x85]"

abbreviation label_tengxun_yun :: string where \<comment> \<open>U+817E U+8BAF U+4E91\<close>
  "label_tengxun_yun \<equiv> [CHR 0xE8, CHR 0x85, CHR 0xBE, CHR 0xE8, CHR 0xAE, CHR 0xAF, CHR 0xE4, CHR 0xBA, CHR 0x91]"

abbreviation label_tengxun_yun_guoji :: string where \<comment> \<open>U+817E U+8BAF U+4E91 U+56FD U+9645\<close>
  "label_tengxun_yun_guoji \<equiv> [CHR 0xE8, CHR 0x85, CHR 0xBE, CHR 0xE8, CHR 0xAE, CHR 0xAF, CHR 0xE4, CHR 0xBA, CHR 0x91, CHR 0xE5, CHR 0x9B, CHR 0xBD, CHR 0xE9, CHR 0x99, CHR 0x85]"

abbreviation label_baidu_yun :: string where \<comment> \<open>U+767E U+5EA6 U+4E91\<close>
  "label_baidu_yun \<equiv> [CHR 0xE7, CHR 0x99, CHR 0xBE, CHR 0xE5, CHR 0xBA, CHR 0xA6, CHR 0xE4, CHR 0xBA, CHR 0x91]"

abbreviation label_huawei_yun :: string where \<comment> \<open>U+534E U+4E3A U+4E91\<close>
  "label_huawei_yun \<equiv> [CHR 0xE5, CHR 0x8D, CHR 0x8E, CHR 0xE4, CHR 0xB8, CHR 0xBA, CHR 0xE4, CHR 0xBA, CHR 0x91]"

abbreviation label_aomen_dianxun :: string where \<comment> \<open>U+6FB3 U+9580 U+96FB U+8A0A\<close>
  "label_aomen_dianxun \<equiv> [CHR 0xE6, CHR 0xBE, CHR 0xB3, CHR 0xE9, CHR 0x96, CHR 0x80, CHR 0xE9, CHR 0x9B, CHR 0xBB, CHR 0xE8, CHR 0xA8, CHR 0x8A]"

abbreviation label_yamaxun_yun :: string where \<comment> \<open>U+4E9A U+9A6C U+900A U+4E91\<close>
  "label_yamaxun_yun \<equiv> [CHR 0xE4, CHR 0xBA, CHR 0x9A, CHR 0xE9, CHR 0xA9, CHR 0xAC, CHR 0xE9, CHR 0x80, CHR 0x8A, CHR 0xE4, CHR 0xBA, CHR 0x91]"

abbreviation label_guge_yun :: string where \<comment> \<open>U+8C37 U+6B4C U+4E91\<close>
  "label_guge_yun \<equiv> [CHR 0xE8, CHR 0xB0, CHR 0xB7, CHR 0xE6, CHR 0xAD, CHR 0x8C, CHR 0xE4, CHR 0xBA, CHR 0x91]"

abbreviation label_huoshan_yinqing :: string where \<comment> \<open>U+706B U+5C71 U+5F15 U+64CE\<close>
  "label_huoshan_yinqing \<equiv> [CHR 0xE7, CHR 0x81, CHR 0xAB, CHR 0xE5, CHR 0xB1, CHR 0xB1, CHR 0xE5, CHR 0xBC, CHR 0x95, CHR 0xE6, CHR 0x93, CHR 0x8E]"

abbreviation label_zhongguo :: string where \<comment> \<open>U+4E2D U+56FD\<close>
  "label_zhongguo \<equiv> [CHR 0xE4, CHR 0xB8, CHR 0xAD, CHR 0xE5, CHR 0x9B, CHR 0xBD]"

abbreviation label_xianggang :: string where \<comment> \<open>U+9999 U+6E2F\<close>
  "label_xianggang \<equiv> [CHR 0xE9, CHR 0xA6, CHR 0x99, CHR 0xE6, CHR 0xB8, CHR 0xAF]"

abbreviation label_aomen :: string where \<comment> \<open>U+6FB3 U+95E8\<close>
  "label_aomen \<equiv> [CHR 0xE6, CHR 0xBE, CHR 0xB3, CHR 0xE9, CHR 0x97, CHR 0xA8]"

abbreviation label_taiwan :: string where \<comment> \<open>U+53F0 U+6E7E\<close>
  "label_taiwan \<equiv> [CHR 0xE5, CHR 0x8F, CHR 0xB0, CHR 0xE6, CHR 0xB9, CHR 0xBE]"

text \<open>\<^verbatim>\<open>asn_map\<close>, the table from autonomous-system numbers to operator labels.\<close>

definition asn_map :: "(int \<times> string) list" where
  "asn_map =
     [(9812, label_dongfang_youxian),
      (9389, label_zhongguo_changcheng),
      (17962, label_tianwei_shixun),
      (17429, label_gehua_youxian),
      (7497, label_keji_wang),
      (24139, label_huashu),
      (9801, label_zhongguancun),
      (4538, label_jiaoyu_wang),
      (24151, ''CNNIC''),
      (38019, label_zhongguo_yidong),
      (139080, label_zhongguo_yidong),
      (9808, label_zhongguo_yidong),
      (24400, label_zhongguo_yidong),
      (134810, label_zhongguo_yidong),
      (24547, label_zhongguo_yidong),
      (56040, label_zhongguo_yidong),
      (56041, label_zhongguo_yidong),
      (56042, label_zhongguo_yidong),
      (56044, label_zhongguo_yidong),
      (132525, label_zhongguo_yidong),
      (56046, label_zhongguo_yidong),
      (56047, label_zhongguo_yidong),
      (56048, label_zhongguo_yidong),
      (59257, label_zhongguo_yidong),
      (24444, label_zhongguo_yidong),
      (24445, label_zhongguo_yidong),
      (137872, label_zhongguo_yidong),
      (9231, label_zhongguo_yidong),
      (58453, label_zhongguo_yidong),
      (4134, label_zhongguo_dianxin),
      (4812, label_zhongguo_dianxin),
      (23724, label_zhongguo_dianxin),
      (136188, label_zhongguo_dianxin),
      (137693, label_zhongguo_dianxin),
      (17638, label_zhongguo_dianxin),
      (140553, label_zhongguo_dianxin),
      (4847, label_zhongguo_dianxin),
      (140061, label_zhongguo_dianxin),
      (136195, label_zhongguo_dianxin),
      (17799, label_zhongguo_dianxin),
      (139018, label_zhongguo_dianxin),
      (134764, label_zhongguo_dianxin),
      (4837, label_zhongguo_liantong),
      (4808, label_zhongguo_liantong),
      (134542, label_zhongguo_liantong),
      (134543, label_zhongguo_liantong),
      (59019, label_jinshan_yun),
      (135377, label_youke_yun),
      (45062, label_wangyi_yun),
      (37963, label_ali_yun),
      (45102, label_ali_yun_guoji),
      (45090, label_tengxun_yun),
      (132203, label_tengxun_yun_guoji),
      (55967, label_baidu_yun),
      (38365, label_baidu_yun),
      (58519, label_huawei_yun),
      (55990, label_huawei_yun),
      (136907, label_huawei_yun),
      (4609, label_aomen_dianxun),
      (13335, ''Cloudflare''),
      (55960, label_yamaxun_yun),
      (14618, label_yamaxun_yun),
      (16509, label_yamaxun_yun),
      (15169, label_guge_yun),
      (396982, label_guge_yun),
      (36492, label_guge_yun),
      (137718, label_huoshan_yinqing)]"

section \<open>Region de-duplication\<close>


text \<open>
  \<^verbatim>\<open>de_duplicate\<close> of \<^verbatim>\<open>apis/ip/core.py\<close>: \<^verbatim>\<open>filter(bool, regions)\<close> keeps the truthy
  entries (for strings: the non-empty ones); the comprehension then walks them in order
  and appends an entry to \<^verbatim>\<open>ret\<close> when it is not yet in \<^verbatim>\<open>ret\<close>.
\<close>

definition de_duplicate :: "string list \<Rightarrow> string list" where
  "de_duplicate regions =
     foldl (\<lambda>ret i. if i \<notin> set ret then ret @ [i] else ret) []
       (filter (\<lambda>s. s \<noteq> []) regions)"

text \<open>
  The specification's reading of a stable de-duplication: the first occurrence of an entry
  is kept and every later copy of it is removed.
\<close>

fun deduplicateOrdered_spec :: "'a list \<Rightarrow> 'a list" where
  "deduplicateOrdered_spec [] = []"
| "deduplicateOrdered_spec (x # xs) = x # deduplicateOrdered_spec (filter (\<lambda>y. y \<noteq> x) xs)"

text \<open>\<^verbatim>\<open>get_as_info\<close>: \<^verbatim>\<open>asn_map.get(number)\<close>.\<close>

definition get_as_info :: "int \<Rightarrow> string option" where
  "get_as_info number = map_of asn_map number"

text \<open>
  \<^verbatim>\<open>str.lower\<close>, on the ASCII letters. (Python also lowers letters outside ASCII; on the
  UTF-8 bytes of such a letter this function is the identity, which gives the same
  answers to the ASCII keyword tests below except for the two code points U+0130 and
  U+212A, whose lower-case forms contain an ASCII letter.)
\<close>

definition lower :: "string \<Rightarrow> string" where
  "lower s =
     map (\<lambda>c. case map_of (zip ''ABCDEFGHIJKLMNOPQRSTUVWXYZ'' ''abcdefghijklmnopqrstuvwxyz'') c of
                 None \<Rightarrow> c
               | Some l \<Rightarrow> l) s"

text \<open>
  \<^verbatim>\<open>derive_isp_from_org\<close>: the keyword rules in the order of the source; \<^verbatim>\<open>k in name\<close>
  is the substring test \<^const>\<open>sublist\<close>.
\<close>

definition derive_isp_from_org :: "string \<Rightarrow> string option" where
  "derive_isp_from_org org_name =
     (if org_name = [] then None
      else let name = lower org_name in
        if sublist ''volcano'' name \<or> sublist ''byte'' name then Some label_huoshan_yinqing
        else if sublist ''alibaba'' name \<or> sublist ''aliyun'' name \<or> sublist ''alicloud'' name
          then Some label_ali_yun
        else if sublist ''tencent'' name \<or> sublist ''qcloud'' name then Some label_tengxun_yun
        else if sublist ''huawei'' name then Some label_huawei_yun
        else if sublist ''baidu'' name then Some label_baidu_yun
        else if sublist ''amazon'' name \<or> sublist ''aws'' name then Some label_yamaxun_yun
        else if sublist ''google'' name \<or> sublist ''gcp'' name then Some label_guge_yun
        else if sublist ''cloudflare'' name then Some ''Cloudflare''
        else None)"

section \<open>Records of the local databases\<close>

text \<open>
  The three MaxMind readers return decoded records. The type of each leaf is fixed by
  the database schema (numbers, names and codes), while the presence of each key varies
  from record to record: a field is \<open>None\<close> when the key is absent. Only the keys the
  program reads are modelled. A reader's answer is \<open>None\<close> when Python would see a falsy
  value (\<^verbatim>\<open>None\<close>, or a record without keys).
\<close>

record asn_record =
  autonomous_system_number :: "int option"
  autonomous_system_organization :: "string option"

text \<open>A country, registered country, subdivision or city entry: its code and its names by language.\<close>

record place_record =
  iso_code :: "string option"
  names :: "(string \<times> string) list option"

record location_record =
  latitude :: "real option"
  longitude :: "real option"

record city_record =
  db_location :: "location_record option"
  db_country :: "place_record option"
  db_registered_country :: "place_record option"
  db_subdivisions :: "place_record list option"
  db_city :: "place_record option"

record cn_record =
  cn_province :: "string option"
  cn_city :: "string option"
  cn_districts :: "string option"
  cn_isp :: "string option"
  cn_net :: "string option"

text \<open>
  The intermediate dictionary \<^verbatim>\<open>ret\<close>/\<^verbatim>\<open>info\<close> that \<^verbatim>\<open>get_maxmind\<close> builds and
  \<^verbatim>\<open>get_cn\<close> updates. A field is \<open>None\<close> while its key is absent.
\<close>

record as_data =
  as_number :: "int option"
  as_name :: "string option"
  as_info :: "string option"

record country_data =
  cd_code :: string
  cd_name :: string

record info =
  i_ip :: string
  i_as :: "as_data option"
  i_addr :: "string option"
  i_location :: "location_record option"
  i_country :: "country_data option"
  i_registered_country :: "country_data option"
  i_regions :: "string list option"
  i_province :: "string option"
  i_city :: "string option"
  i_type :: "string option"

section \<open>The environment of one resolution\<close>

text \<open>
  Everything outside the program that one call of \<^verbatim>\<open>get_ip_info\<close> reads: the answers
  of the three database readers (a reader may raise, and the city and override readers
  return the matched prefix length with the record), the order in which
  \<^verbatim>\<open>random.shuffle\<close> leaves the sources, and the outcome of attempting one remote source.
  That outcome stands for lines 457 to 461 of the source, the request, the status check,
  the JSON decoding and the source's mapper: it is \<open>None\<close> when any of them fails (the
  loop then continues with the next source) and the mapped partial record otherwise.
  The request timeout only influences this outcome.
\<close>

datatype mapper = from_ip_sb | from_ip2location | from_realip | from_ip_api | from_ipapi_is | from_ipwhois

record remote_source =
  src_url :: string
  src_mapper :: mapper

record env =
  asn_reader :: "string \<Rightarrow> error + asn_record option"
  city_reader :: "string \<Rightarrow> error + city_record option \<times> int"
  cn_reader :: "string \<Rightarrow> error + cn_record option \<times> int"
  shuffle :: "remote_source list \<Rightarrow> remote_source list"
  attempt :: "remote_source \<Rightarrow> pydict option"

section \<open>The local pipeline\<close>

definition lang :: "string list" where
  "lang = [''zh-CN'', ''en'']"

text \<open>
  \<^verbatim>\<open>get_des\<close>: the name in the first language of \<^verbatim>\<open>lang\<close> that the record has, else
  the English name, else the empty string; a record without \<^verbatim>\<open>names\<close> has no names.
\<close>

fun get_des_in :: "string list \<Rightarrow> (string \<times> string) list \<Rightarrow> string" where
  "get_des_in [] nm = (case map_of nm ''en'' of None \<Rightarrow> [] | Some v \<Rightarrow> v)"
| "get_des_in (i # langs) nm = (case map_of nm i of Some v \<Rightarrow> v | None \<Rightarrow> get_des_in langs nm)"

definition get_des :: "place_record \<Rightarrow> string" where
  "get_des d = get_des_in lang (case names d of None \<Rightarrow> [] | Some nm \<Rightarrow> nm)"

text \<open>\<^verbatim>\<open>get_country\<close>: the three special regions get the country's name in front.\<close>

definition get_country :: "place_record \<Rightarrow> string" where
  "get_country d =
     (let country_name = get_des d in
      if country_name \<in> set [label_xianggang, label_aomen, label_taiwan]
      then label_zhongguo @ country_name else country_name)"

text \<open>
  \<^verbatim>\<open>a or b\<close> on optional strings, and the truth value of an optional string:
  \<^verbatim>\<open>None\<close> and the empty string are falsy.
\<close>

definition str_truthy :: "string option \<Rightarrow> bool" where
  "str_truthy a = (case a of None \<Rightarrow> False | Some s \<Rightarrow> s \<noteq> [])"

definition str_or :: "string option \<Rightarrow> string option \<Rightarrow> string option" where
  "str_or a b = (if str_truthy a then a else b)"

text \<open>
  Lines 106 to 113 of \<^verbatim>\<open>get_maxmind\<close>: the \<^verbatim>\<open>as\<close> entry of a found ASN record. Reading
  a key that the record lacks raises \<^verbatim>\<open>KeyError\<close>.
\<close>

definition maxmind_as :: "asn_record \<Rightarrow> error + as_data" where
  "maxmind_as asn_info =
     (case autonomous_system_number asn_info of
        None \<Rightarrow> Inl KeyError
      | Some number \<Rightarrow>
          (case autonomous_system_organization asn_info of
             None \<Rightarrow> Inl KeyError
           | Some org \<Rightarrow>
               (let as_extra = str_or (get_as_info number) (derive_isp_from_org org)
                in Inr \<lparr>as_number = Some number, as_name = Some org,
                        as_info = (if str_truthy as_extra then as_extra else None)\<rparr>)))"

text \<open>Lines 127 to 137: the \<^verbatim>\<open>country\<close> and \<^verbatim>\<open>registered_country\<close> entries.\<close>

definition maxmind_country :: "place_record \<Rightarrow> error + country_data" where
  "maxmind_country c =
     (case iso_code c of
        None \<Rightarrow> Inl KeyError
      | Some cc \<Rightarrow> Inr \<lparr>cd_code = cc, cd_name = get_country c\<rparr>)"

text \<open>
  Lines 139 to 144: the region list. It starts with the name of every subdivision; the
  name of the city is appended when
  \<^verbatim>\<open>(not regions or city not in regions[-1]) and city not in country_name\<close>.
\<close>

definition maxmind_regions :: "city_record \<Rightarrow> string \<Rightarrow> string list" where
  "maxmind_regions city_info country_name =
     (let regions = map get_des (case db_subdivisions city_info of None \<Rightarrow> [] | Some subs \<Rightarrow> subs)
      in case db_city city_info of
           None \<Rightarrow> regions
         | Some c \<Rightarrow>
             (let city = get_des c in
              if (regions = [] \<or> \<not> sublist city (last regions)) \<and> \<not> sublist city country_name
              then regions @ [city] else regions))"

text \<open>
  Lines 145 to 151: \<^verbatim>\<open>regions\<close> is the de-duplicated list; when it is not empty its
  first entry is the province, and its last entry is the city when there are several.
\<close>

definition maxmind_province_city :: "info \<Rightarrow> string list \<Rightarrow> info" where
  "maxmind_province_city ret regions =
     (let ret1 = ret\<lparr>i_regions := Some (if regions \<noteq> [] then de_duplicate regions else [])\<rparr>;
          rs = (if regions \<noteq> [] then de_duplicate regions else [])
      in if rs \<noteq> []
         then (let ret2 = ret1\<lparr>i_province := Some (hd rs)\<rparr>
               in if length rs > 1 then ret2\<lparr>i_city := Some (last rs)\<rparr> else ret2)
         else ret1)"

text \<open>Lines 121 to 153 of \<^verbatim>\<open>get_maxmind\<close>: the fields read from a found city record.\<close>

definition maxmind_geo :: "info \<Rightarrow> city_record \<Rightarrow> error + info" where
  "maxmind_geo ret city_info =
     (let ret1 = (case db_location city_info of
                    None \<Rightarrow> ret
                  | Some l \<Rightarrow> ret\<lparr>i_location :=
                                Some \<lparr>latitude = latitude l, longitude = longitude l\<rparr>\<rparr>)
      in case (case db_country city_info of
                 None \<Rightarrow> Inr ret1
               | Some c \<Rightarrow> (case maxmind_country c of
                              Inl e \<Rightarrow> Inl e
                            | Inr cd \<Rightarrow> Inr (ret1\<lparr>i_country := Some cd\<rparr>))) of
           Inl e \<Rightarrow> Inl e
         | Inr ret2 \<Rightarrow>
             (case (case db_registered_country city_info of
                      None \<Rightarrow> Inr ret2
                    | Some c \<Rightarrow> (case maxmind_country c of
                                   Inl e \<Rightarrow> Inl e
                                 | Inr cd \<Rightarrow> Inr (ret2\<lparr>i_registered_country := Some cd\<rparr>))) of
                Inl e \<Rightarrow> Inl e
              | Inr ret3 \<Rightarrow>
                  Inr (maxmind_province_city ret3
                        (maxmind_regions city_info
                           (case i_country ret3 of None \<Rightarrow> [] | Some cd \<Rightarrow> cd_name cd)))))"

text \<open>
  \<^verbatim>\<open>get_maxmind\<close>. The readers and \<^verbatim>\<open>get_addr\<close> may raise; \<^verbatim>\<open>addr\<close> is computed from
  the matched prefix length whether or not a city record was found.
\<close>

definition empty_info :: "string \<Rightarrow> info" where
  "empty_info ip =
     \<lparr>i_ip = ip, i_as = None, i_addr = None, i_location = None, i_country = None,
      i_registered_country = None, i_regions = None, i_province = None, i_city = None,
      i_type = None\<rparr>"

definition get_maxmind :: "env \<Rightarrow> string \<Rightarrow> error + info" where
  "get_maxmind E ip =
     (case asn_reader E ip of
        Inl e \<Rightarrow> Inl e
      | Inr asn_info \<Rightarrow>
          (case (case asn_info of
                   None \<Rightarrow> Inr (empty_info ip)
                 | Some a \<Rightarrow> (case maxmind_as a of
                                Inl e \<Rightarrow> Inl e
                              | Inr as_d \<Rightarrow> Inr ((empty_info ip)\<lparr>i_as := Some as_d\<rparr>))) of
             Inl e \<Rightarrow> Inl e
           | Inr ret \<Rightarrow>
               (case city_reader E ip of
                  Inl e \<Rightarrow> Inl e
                | Inr (city_info, prefix_len) \<Rightarrow>
                    (case get_addr ip prefix_len of
                       Inl e \<Rightarrow> Inl e
                     | Inr a \<Rightarrow>
                         (case city_info of
                            None \<Rightarrow> Inr (ret\<lparr>i_addr := Some a\<rparr>)
                          | Some c \<Rightarrow> maxmind_geo (ret\<lparr>i_addr := Some a\<rparr>) c)))))"

text \<open>
  \<^verbatim>\<open>get_cn\<close>, which updates \<^verbatim>\<open>info\<close> in place. It can raise only in the reader or in
  \<^verbatim>\<open>get_addr\<close>, that is before the first assignment, so an error leaves \<^verbatim>\<open>info\<close> as it
  was; without an override record it returns at once. \<^verbatim>\<open>x.get(k, "") or ""\<close> is the
  string, or the empty string when the key is absent.
\<close>

definition get_or_empty :: "string option \<Rightarrow> string" where
  "get_or_empty x = (case x of None \<Rightarrow> [] | Some s \<Rightarrow> s)"

definition cn_regions :: "info \<Rightarrow> string list \<Rightarrow> info" where
  "cn_regions info regions =
     (if regions \<noteq> []
      then (let info1 = info\<lparr>i_regions := Some regions\<rparr>;
                info2 = (if \<not> str_truthy (i_province info1)
                         then info1\<lparr>i_province := Some (hd regions)\<rparr> else info1)
            in if length regions > 1 \<and> \<not> str_truthy (i_city info2)
               then info2\<lparr>i_city := Some (last regions)\<rparr> else info2)
      else info)"

definition cn_as :: "info \<Rightarrow> string option \<Rightarrow> info" where
  "cn_as info isp =
     (let info1 = (if i_as info = None
                   then info\<lparr>i_as := Some \<lparr>as_number = None, as_name = None, as_info = None\<rparr>\<rparr>
                   else info)
      in if str_truthy isp
         then info1\<lparr>i_as := map_option (\<lambda>a. a\<lparr>as_info := isp\<rparr>) (i_as info1)\<rparr>
         else info1)"

definition cn_type :: "info \<Rightarrow> string option \<Rightarrow> info" where
  "cn_type info net_val = (if str_truthy net_val then info\<lparr>i_type := net_val\<rparr> else info)"

definition get_cn :: "env \<Rightarrow> string \<Rightarrow> info \<Rightarrow> error + info" where
  "get_cn E ip info =
     (case cn_reader E ip of
        Inl e \<Rightarrow> Inl e
      | Inr (None, prefix_len) \<Rightarrow> Inr info
      | Inr (Some cn_info, prefix_len) \<Rightarrow>
          (case get_addr ip prefix_len of
             Inl e \<Rightarrow> Inl e
           | Inr a \<Rightarrow>
               Inr (cn_type
                     (cn_as
                       (cn_regions (info\<lparr>i_addr := Some a\<rparr>)
                          (de_duplicate [get_or_empty (cn_province cn_info),
                                         get_or_empty (cn_city cn_info),
                                         get_or_empty (cn_districts cn_info)]))
                       (cn_isp cn_info))
                     (cn_net cn_info))))"

text \<open>
  \<^verbatim>\<open>build_uniform_result\<close>: the fifteen keys that the local pipeline produces, with
  \<^verbatim>\<open>get_nested\<close> unfolded for each path, and then the loop that replaces \<^verbatim>\<open>None\<close> by
  the empty string.
\<close>

definition opt_str :: "string option \<Rightarrow> pyval" where
  "opt_str x = (case x of None \<Rightarrow> PStr [] | Some s \<Rightarrow> PStr s)"

definition opt_int :: "int option \<Rightarrow> pyval" where
  "opt_int x = (case x of None \<Rightarrow> PStr [] | Some i \<Rightarrow> PInt i)"

definition opt_float :: "real option \<Rightarrow> pyval" where
  "opt_float x = (case x of None \<Rightarrow> PStr [] | Some r \<Rightarrow> PFloat r)"

definition build_uniform_result :: "info \<Rightarrow> pydict" where
  "build_uniform_result info =
     map (\<lambda>(k, v). (k, if v = PNone then PStr [] else v))
       [(''ip'', PStr (i_ip info)),
        (''addr'', opt_str (i_addr info)),
        (''as_number'', opt_int (case i_as info of None \<Rightarrow> None | Some a \<Rightarrow> as_number a)),
        (''as_name'', opt_str (case i_as info of None \<Rightarrow> None | Some a \<Rightarrow> as_name a)),
        (''as_info'', opt_str (case i_as info of None \<Rightarrow> None | Some a \<Rightarrow> as_info a)),
        (''country_code'', opt_str (map_option cd_code (i_country info))),
        (''country_name'', opt_str (map_option cd_name (i_country info))),
        (''registered_country_code'', opt_str (map_option cd_code (i_registered_country info))),
        (''registered_country_name'', opt_str (map_option cd_name (i_registered_country info))),
        (''latitude'', opt_float (case i_location info of None \<Rightarrow> None | Some l \<Rightarrow> latitude l)),
        (''longitude'', opt_float (case i_location info of None \<Rightarrow> None | Some l \<Rightarrow> longitude l)),
        (''province'', opt_str (i_province info)),
        (''city'', opt_str (i_city info)),
        (''regions'', (case i_regions info of
                         None \<Rightarrow> PStr []
                       | Some rs \<Rightarrow> if rs \<noteq> [] then PStr (join '','' rs) else PStr [])),
        (''type'', opt_str (i_type info))]"

text \<open>
  \<^verbatim>\<open>get_ip_info_local\<close>: the override is consulted when the country code is \<^verbatim>\<open>CN\<close> and
  the registered country is absent or \<^verbatim>\<open>CN\<close> as well; an exception of \<^verbatim>\<open>get_cn\<close> is
  swallowed, one of \<^verbatim>\<open>get_maxmind\<close> is not.
\<close>

definition get_ip_info_local :: "env \<Rightarrow> string \<Rightarrow> error + pydict" where
  "get_ip_info_local E ip =
     (case get_maxmind E ip of
        Inl e \<Rightarrow> Inl e
      | Inr info \<Rightarrow>
          if map_option cd_code (i_country info) = Some ''CN'' \<and>
             (i_registered_country info = None \<or>
              map_option cd_code (i_registered_country info) = Some ''CN'')
          then (case get_cn E ip info of
                  Inl e \<Rightarrow> Inr (build_uniform_result info)
                | Inr info' \<Rightarrow> Inr (build_uniform_result info'))
          else Inr (build_uniform_result info))"

section \<open>Remote aggregation\<close>

text \<open>\<^verbatim>\<open>_sources_for_ip\<close>: the six sources, each a URL and a mapper.\<close>

definition sources_for_ip :: "string \<Rightarrow> string \<Rightarrow> remote_source list" where
  "sources_for_ip ip lng =
     [\<lparr>src_url = ''https://api.ip.sb/geoip/'' @ ip, src_mapper = from_ip_sb\<rparr>,
      \<lparr>src_url = ''https://api.ip2location.io/?ip='' @ ip, src_mapper = from_ip2location\<rparr>,
      \<lparr>src_url = ''https://realip.cc/?ip='' @ ip, src_mapper = from_realip\<rparr>,
      \<lparr>src_url = ''http://ip-api.com/json/'' @ ip @ ''?lang='' @ lng, src_mapper = from_ip_api\<rparr>,
      \<lparr>src_url = ''https://api.ipapi.is/?ip='' @ ip, src_mapper = from_ipapi_is\<rparr>,
      \<lparr>src_url = ''https://ipwhois.app/json/'' @ ip @ ''?format=json'', src_mapper = from_ipwhois\<rparr>]"

text \<open>
  The loop of \<^verbatim>\<open>get_ip_info_remote\<close>: it stops once \<^verbatim>\<open>max_sources\<close> sources have been
  tried; a failed attempt is skipped, a successful one is merged into \<^verbatim>\<open>unified\<close>.
\<close>

fun remote_loop ::
  "(remote_source \<Rightarrow> pydict option) \<Rightarrow> int \<Rightarrow> int \<Rightarrow> pydict \<Rightarrow> remote_source list \<Rightarrow> pydict" where
  "remote_loop att max_sources tried unified [] = unified"
| "remote_loop att max_sources tried unified (src # sources) =
     (if tried \<ge> max_sources then unified
      else (case att src of
              None \<Rightarrow> remote_loop att max_sources (tried + 1) unified sources
            | Some partial \<Rightarrow>
                remote_loop att max_sources (tried + 1) (merge_unified unified partial) sources))"

text \<open>
  The closing lines of \<^verbatim>\<open>get_ip_info_remote\<close> and of \<^verbatim>\<open>get_ip_info\<close>: when \<^verbatim>\<open>regions\<close> is
  falsy it becomes the comma-joined truthy ones of province and city, or the empty
  string when both are falsy. \<^verbatim>\<open>join\<close> raises \<^verbatim>\<open>TypeError\<close> on a truthy value that is
  not a string.
\<close>

definition regions_fallback :: "pydict \<Rightarrow> error + pydict" where
  "regions_fallback d =
     (if \<not> py_truthy (dict_get d ''regions'')
      then (let parts = [dict_get_default d ''province'' (PStr []),
                         dict_get_default d ''city'' (PStr [])]
            in if list_ex py_truthy parts
               then (case py_join '','' (filter py_truthy parts) of
                       Inl e \<Rightarrow> Inl e
                     | Inr s \<Rightarrow> Inr (AList.update ''regions'' (PStr s) d))
               else Inr (AList.update ''regions'' (PStr []) d))
      else Inr d)"

definition get_ip_info_remote :: "env \<Rightarrow> string \<Rightarrow> int \<Rightarrow> string \<Rightarrow> error + pydict" where
  "get_ip_info_remote E ip max_sources lng =
     regions_fallback
       (remote_loop (attempt E) max_sources 0
          (AList.update ''ip'' (PStr ip) unified_template)
          (shuffle E (sources_for_ip ip lng)))"

section \<open>The coordinator\<close>

text \<open>
  \<^verbatim>\<open>get_ip_info\<close>: the remote pass inside \<^verbatim>\<open>try\<close>, replaced by the template with the
  address when it raises; the local pass inside \<^verbatim>\<open>try\<close>, replaced by the empty
  dictionary when it raises; the merge of local into remote; the regions fallback.
\<close>

definition get_ip_info :: "env \<Rightarrow> string \<Rightarrow> error + pydict" where
  "get_ip_info E ip =
     (let remote = (case get_ip_info_remote E ip 3 ''zh-CN'' of
                      Inl e \<Rightarrow> AList.update ''ip'' (PStr ip) unified_template
                    | Inr r \<Rightarrow> r);
          local = (case get_ip_info_local E ip of Inl e \<Rightarrow> [] | Inr l \<Rightarrow> l)
      in regions_fallback (merge_unified remote local))"

section \<open>The types of the unified schema\<close>

text \<open>
  The specification's output shape: every field of the schema is a string, except
  \<^verbatim>\<open>latitude\<close> and \<^verbatim>\<open>longitude\<close>, which are a string or a number. \<open>spec_shape\<close> says that
  a dictionary has every key of the schema with a value of its type.
\<close>

fun is_str :: "pyval \<Rightarrow> bool" where
  "is_str (PStr s) = True"
| "is_str _ = False"

fun is_number :: "pyval \<Rightarrow> bool" where
  "is_number (PInt i) = True"
| "is_number (PFloat r) = True"
| "is_number _ = False"

definition spec_field_type :: "string \<Rightarrow> pyval \<Rightarrow> bool" where
  "spec_field_type k v =
     (if k = ''latitude'' \<or> k = ''longitude'' then is_str v \<or> is_number v else is_str v)"

definition spec_shape :: "pydict \<Rightarrow> bool" where
  "spec_shape r =
     list_all (\<lambda>k. case map_of r k of None \<Rightarrow> False | Some v \<Rightarrow> spec_field_type k v) schema_keys"

section \<open>Example environments\<close>

text \<open>
  Concrete database answers and remote outcomes, used to run the program on explicit
  inputs. In all of them \<^verbatim>\<open>random.shuffle\<close> leaves the sources in their listed order.
\<close>

definition google_asn :: asn_record where
  "google_asn = \<lparr>autonomous_system_number = Some 15169,
                  autonomous_system_organization = Some ''GOOGLE''\<rparr>"

definition us_city :: city_record where
  "us_city =
     \<lparr>db_location = Some \<lparr>latitude = Some 37.751, longitude = Some (- 97.822)\<rparr>,
      db_country = Some \<lparr>iso_code = Some ''US'', names = Some [(''en'', ''United States'')]\<rparr>,
      db_registered_country =
        Some \<lparr>iso_code = Some ''US'', names = Some [(''en'', ''United States'')]\<rparr>,
      db_subdivisions = Some [\<lparr>iso_code = Some ''CA'', names = Some [(''en'', ''California'')]\<rparr>],
      db_city = Some \<lparr>iso_code = None, names = Some [(''en'', ''Mountain View'')]\<rparr>\<rparr>"

text \<open>Every remote attempt fails; the address has an ASN record and no city record.\<close>

definition env_remote_down :: env where
  "env_remote_down =
     \<lparr>asn_reader = (\<lambda>ip. Inr (Some google_asn)),
      city_reader = (\<lambda>ip. Inr (None, 24)),
      cn_reader = (\<lambda>ip. Inr (None, 0)),
      shuffle = (\<lambda>sources. sources),
      attempt = (\<lambda>src. None)\<rparr>"

text \<open>
  Every remote source answers with a number where the province name belongs, so that
  the closing \<^verbatim>\<open>join\<close> of the remote pass raises; the local databases know the address.
\<close>

definition env_remote_raises :: env where
  "env_remote_raises =
     \<lparr>asn_reader = (\<lambda>ip. Inr (Some google_asn)),
      city_reader = (\<lambda>ip. Inr (Some us_city, 24)),
      cn_reader = (\<lambda>ip. Inr (None, 0)),
      shuffle = (\<lambda>sources. sources),
      attempt = (\<lambda>src. Some (AList.update ''province'' (PInt 5)
                              (AList.update ''ip'' (PStr ''8.8.8.8'') unified_template)))\<rparr>"

text \<open>Every remote source reports another address than the one asked for.\<close>

definition env_remote_other_ip :: env where
  "env_remote_other_ip =
     \<lparr>asn_reader = (\<lambda>ip. Inr None),
      city_reader = (\<lambda>ip. Inr (None, 24)),
      cn_reader = (\<lambda>ip. Inr (None, 0)),
      shuffle = (\<lambda>sources. sources),
      attempt = (\<lambda>src. Some (AList.update ''timezone'' (PStr ''UTC'')
                              (AList.update ''ip'' (PStr ''9.9.9.9'') unified_template)))\<rparr>"

text \<open>
  An address of AS4134, which the table labels, in the target jurisdiction, with an
  override record that carries an ISP label of its own.
\<close>

definition chinanet_asn :: asn_record where
  "chinanet_asn = \<lparr>autonomous_system_number = Some 4134,
                    autonomous_system_organization = Some ''Chinanet''\<rparr>"

definition beijing_city :: city_record where
  "beijing_city =
     \<lparr>db_location = None,
      db_country = Some \<lparr>iso_code = Some ''CN'', names = Some [(''en'', ''China'')]\<rparr>,
      db_registered_country = Some \<lparr>iso_code = Some ''CN'', names = Some [(''en'', ''China'')]\<rparr>,
      db_subdivisions = Some [\<lparr>iso_code = Some ''BJ'', names = Some [(''en'', ''Beijing'')]\<rparr>],
      db_city = Some \<lparr>iso_code = None, names = Some [(''en'', ''Beijing'')]\<rparr>\<rparr>"

definition cn_override :: cn_record where
  "cn_override =
     \<lparr>cn_province = Some ''Beijing'', cn_city = Some ''Beijing'', cn_districts = Some ''Haidian'',
      cn_isp = Some ''China Telecom Beijing'', cn_net = Some ''broadband''\<rparr>"

definition env_cn :: env where
  "env_cn =
     \<lparr>asn_reader = (\<lambda>ip. Inr (Some chinanet_asn)),
      city_reader = (\<lambda>ip. Inr (Some beijing_city, 22)),
      cn_reader = (\<lambda>ip. Inr (Some cn_override, 24)),
      shuffle = (\<lambda>sources. sources),
      attempt = (\<lambda>src. None)\<rparr>"

text \<open>
  An address of AS45102: the table has a label for the number, and the keyword rules
  would give another label for the organization name.
\<close>

definition alibaba_asn :: asn_record where
  "alibaba_asn = \<lparr>autonomous_system_number = Some 45102,
                   autonomous_system_organization = Some ''Alibaba US Technology Co., Ltd.''\<rparr>"

definition env_alibaba :: env where
  "env_alibaba =
     \<lparr>asn_reader = (\<lambda>ip. Inr (Some alibaba_asn)),
      city_reader = (\<lambda>ip. Inr (None, 16)),
      cn_reader = (\<lambda>ip. Inr (None, 0)),
      shuffle = (\<lambda>sources. sources),
      attempt = (\<lambda>src. None)\<rparr>"

section \<open>Properties of the region de-duplication\<close>

lemma set_deduplicateOrdered_spec: "set (deduplicateOrdered_spec xs) = set xs"
  by (induction xs rule: deduplicateOrdered_spec.induct) auto

lemma distinct_deduplicateOrdered_spec: "distinct (deduplicateOrdered_spec xs)"
  by (induction xs rule: deduplicateOrdered_spec.induct) (auto simp: set_deduplicateOrdered_spec)

lemma de_duplicate_loop:
  "foldl (\<lambda>ret i. if i \<notin> set ret then ret @ [i] else ret) acc ys =
     acc @ deduplicateOrdered_spec (filter (\<lambda>y. y \<notin> set acc) ys)"
proof (induction ys arbitrary: acc)
  case Nil
  show ?case by simp
next
  case (Cons y ys)
  show ?case
  proof (cases "y \<in> set acc")
    case True
    then show ?thesis using Cons by simp
  next
    case False
    have "filter (\<lambda>z. z \<notin> set (acc @ [y])) ys =
          filter (\<lambda>z. z \<noteq> y) (filter (\<lambda>z. z \<notin> set acc) ys)"
      by (induction ys) auto
    then show ?thesis using False Cons by simp
  qed
qed

lemma de_duplicate_eq_spec:
  "de_duplicate xs = deduplicateOrdered_spec (filter (\<lambda>s. s \<noteq> []) xs)"
  by (simp add: de_duplicate_def de_duplicate_loop)

text \<open>
  Claim C8. For every list of strings, \<^verbatim>\<open>de_duplicate\<close> first drops the empty entries and
  then removes exact duplicates, keeping the first occurrence of each entry in its place:
  the loop of the source computes the specification's stable de-duplication of the
  filtered list, its result has no duplicates, and its entries are exactly the non-empty
  entries of the input. In particular
  \<^verbatim>\<open>de_duplicate(["Beijing", "", "Beijing", "Haidian"]) == ["Beijing", "Haidian"]\<close>.
\<close>

theorem de_duplicate_stable_dedup:
  "de_duplicate xs = deduplicateOrdered_spec (filter (\<lambda>s. s \<noteq> []) xs)
   \<and> distinct (de_duplicate xs)
   \<and> set (de_duplicate xs) = set xs - {[]}
   \<and> de_duplicate [''Beijing'', [], ''Beijing'', ''Haidian''] = [''Beijing'', ''Haidian'']"
proof -
  have a: "de_duplicate xs = deduplicateOrdered_spec (filter (\<lambda>s. s \<noteq> []) xs)"
    by (rule de_duplicate_eq_spec)
  have b: "distinct (de_duplicate xs)"
    by (simp add: a distinct_deduplicateOrdered_spec)
  have c: "set (de_duplicate xs) = set xs - {[]}"
    by (auto simp: a set_deduplicateOrdered_spec)
  have d: "de_duplicate [''Beijing'', [], ''Beijing'', ''Haidian''] = [''Beijing'', ''Haidian'']"
    by (simp add: de_duplicate_def)
  from a b c d show ?thesis by blast
qed

section \<open>Properties of the merge policy\<close>

lemma map_of_merge_step:
  "map_of (merge_step base kv) k =
     (if k = fst kv \<and> (map_of base k = None \<or> in_none_empty_zero (dict_get base k))
      then Some (snd kv) else map_of base k)"
  by (auto simp: merge_step_def update_conv')

lemma map_of_foldl_merge_step_notin:
  "k \<notin> fst ` set inc \<Longrightarrow> map_of (foldl merge_step base inc) k = map_of base k"
  by (induction inc arbitrary: base) (auto simp: map_of_merge_step)

lemma map_of_foldl_merge_step:
  "distinct (map fst inc) \<Longrightarrow>
   map_of (foldl merge_step base inc) k =
     (case map_of inc k of
        None \<Rightarrow> map_of base k
      | Some v \<Rightarrow> if map_of base k = None \<or> in_none_empty_zero (dict_get base k)
                  then Some v else map_of base k)"
proof (induction inc arbitrary: base)
  case Nil
  show ?case by simp
next
  case (Cons kv inc)
  show ?case
  proof (cases "k = fst kv")
    case True
    with Cons.prems have "k \<notin> fst ` set inc" by auto
    then have "map_of (foldl merge_step (merge_step base kv) inc) k = map_of (merge_step base kv) k"
      by (rule map_of_foldl_merge_step_notin)
    moreover have "map_of (kv # inc) k = Some (snd kv)"
      using True by (cases kv) simp
    moreover have "foldl merge_step base (kv # inc) = foldl merge_step (merge_step base kv) inc"
      by simp
    ultimately show ?thesis using True by (simp only: map_of_merge_step option.case) simp
  next
    case False
    have "map_of (merge_step base kv) k = map_of base k"
      using False by (simp add: map_of_merge_step)
    moreover have "dict_get (merge_step base kv) k = dict_get base k"
      using False by (simp add: dict_get_def map_of_merge_step)
    moreover have "distinct (map fst inc)" using Cons.prems by simp
    moreover have "map_of (kv # inc) k = map_of inc k"
      using False by (cases kv) simp
    moreover have "foldl merge_step base (kv # inc) = foldl merge_step (merge_step base kv) inc"
      by simp
    ultimately show ?thesis using Cons.IH [of "merge_step base kv"] by (simp only:)
  qed
qed

lemma map_of_merge_unified:
  "distinct (map fst inc) \<Longrightarrow>
   map_of (merge_unified base inc) k =
     (case map_of inc k of
        None \<Rightarrow> map_of base k
      | Some v \<Rightarrow> if map_of base k = None \<or> in_none_empty_zero (dict_get base k)
                  then Some v else map_of base k)"
  by (simp add: merge_unified_def map_of_foldl_merge_step)

lemma merge_unified_keeps:
  "map_of base k = Some b \<Longrightarrow> \<not> in_none_empty_zero b \<Longrightarrow> map_of (merge_unified base inc) k = Some b"
proof -
  have "\<And>base. map_of base k = Some b \<Longrightarrow> \<not> in_none_empty_zero b \<Longrightarrow>
          map_of (foldl merge_step base inc) k = Some b"
    by (induction inc) (auto simp: map_of_merge_step dict_get_def)
  then show "map_of base k = Some b \<Longrightarrow> \<not> in_none_empty_zero b \<Longrightarrow> map_of (merge_unified base inc) k = Some b"
    by (simp add: merge_unified_def)
qed


text \<open>
  Claim C2. For every accumulator \<open>base\<close> and every partial record \<open>inc\<close> (a dictionary:
  its keys are distinct), after \<^verbatim>\<open>_merge_unified(base, inc)\<close> a field \<open>k\<close> of \<open>inc\<close> has been
  written into \<open>base\<close> exactly when \<open>k\<close> was absent from \<open>base\<close> or the value of \<open>base\<close> for
  it was the empty string, \<^verbatim>\<open>None\<close> or a numeric zero (\<^verbatim>\<open>0\<close>, \<^verbatim>\<open>0.0\<close>, and \<^verbatim>\<open>False\<close>, which
  Python counts as the integer zero); every other field of \<open>base\<close> is unchanged. A field of
  \<open>base\<close> that is not empty in this sense is never overwritten, and merging
  \<^verbatim>\<open>{"city":"B","province":"C"}\<close> into \<^verbatim>\<open>{"city":"A"}\<close> yields
  \<^verbatim>\<open>{"city":"A","province":"C"}\<close>.
\<close>

theorem merge_unified_first_non_empty_wins:
  assumes "distinct (map fst inc)"
  shows "map_of (merge_unified base inc) k =
           (case map_of inc k of
              None \<Rightarrow> map_of base k
            | Some v \<Rightarrow>
                (case map_of base k of
                   None \<Rightarrow> Some v
                 | Some b \<Rightarrow> if b = PStr [] \<or> b = PNone \<or> py_num b = Some 0
                             then Some v else Some b))
         \<and> (\<forall>b. map_of base k = Some b \<and> b \<noteq> PStr [] \<and> b \<noteq> PNone \<and> py_num b \<noteq> Some 0
                \<longrightarrow> map_of (merge_unified base inc) k = Some b)
         \<and> merge_unified [(''city'', PStr ''A'')] [(''city'', PStr ''B''), (''province'', PStr ''C'')]
             = [(''city'', PStr ''A''), (''province'', PStr ''C'')]"
proof -
  have a: "map_of (merge_unified base inc) k =
           (case map_of inc k of
              None \<Rightarrow> map_of base k
            | Some v \<Rightarrow>
                (case map_of base k of
                   None \<Rightarrow> Some v
                 | Some b \<Rightarrow> if b = PStr [] \<or> b = PNone \<or> py_num b = Some 0
                             then Some v else Some b))"
    using assms
    by (auto simp: map_of_merge_unified dict_get_def in_none_empty_zero_def split: option.splits)
  have b: "\<forall>b. map_of base k = Some b \<and> b \<noteq> PStr [] \<and> b \<noteq> PNone \<and> py_num b \<noteq> Some 0
                \<longrightarrow> map_of (merge_unified base inc) k = Some b"
    by (auto intro!: merge_unified_keeps simp: in_none_empty_zero_def)
  have c: "merge_unified [(''city'', PStr ''A'')] [(''city'', PStr ''B''), (''province'', PStr ''C'')]
             = [(''city'', PStr ''A''), (''province'', PStr ''C'')]"
    by (simp add: merge_unified_def merge_step_def dict_get_def in_none_empty_zero_def)
  from a b c show ?thesis by blast
qed

theorem merge_unified_first_non_empty_wins_witness:
  "distinct (map fst [(''latitude'', PFloat 1), (''city'', PStr ''B''), (''isp'', PStr ''X'')])
   \<and> map_of (merge_unified [(''latitude'', PInt 0), (''city'', PStr ''A'')]
        [(''latitude'', PFloat 1), (''city'', PStr ''B''), (''isp'', PStr ''X'')]) ''latitude''
       = Some (PFloat 1)
   \<and> map_of (merge_unified [(''latitude'', PInt 0), (''city'', PStr ''A'')]
        [(''latitude'', PFloat 1), (''city'', PStr ''B''), (''isp'', PStr ''X'')]) ''city''
       = Some (PStr ''A'')"
proof -
  have d: "distinct (map fst [(''latitude'', PFloat 1), (''city'', PStr ''B''), (''isp'', PStr ''X'')])"
    by simp
  show ?thesis
    using d
      merge_unified_first_non_empty_wins [OF d, of "[(''latitude'', PInt 0), (''city'', PStr ''A'')]" "''latitude''"]
      merge_unified_first_non_empty_wins [OF d, of "[(''latitude'', PInt 0), (''city'', PStr ''A'')]" "''city''"]
    by simp
qed

section \<open>Keys and the regions fallback\<close>

lemma merge_unified_key_kept:
  "map_of base k \<noteq> None \<Longrightarrow> map_of (merge_unified base inc) k \<noteq> None"
proof -
  have "\<And>base. map_of base k \<noteq> None \<Longrightarrow> map_of (foldl merge_step base inc) k \<noteq> None"
    by (induction inc) (auto simp: map_of_merge_step)
  then show "map_of base k \<noteq> None \<Longrightarrow> map_of (merge_unified base inc) k \<noteq> None"
    by (simp add: merge_unified_def)
qed

lemma remote_loop_key_kept:
  "map_of unified k \<noteq> None \<Longrightarrow> map_of (remote_loop att n tried unified sources) k \<noteq> None"
proof (induction sources arbitrary: tried unified)
  case Nil
  then show ?case by simp
next
  case (Cons src sources)
  show ?case
  proof (cases "att src")
    case None
    then show ?thesis using Cons by simp
  next
    case (Some partial)
    have "map_of (merge_unified unified partial) k \<noteq> None"
      using Cons.prems by (rule merge_unified_key_kept)
    then have "map_of (remote_loop att n (tried + 1) (merge_unified unified partial) sources) k \<noteq> None"
      by (rule Cons.IH)
    then show ?thesis using Some Cons.prems by simp
  qed
qed

lemma remote_loop_keeps:
  "map_of unified k = Some b \<Longrightarrow> \<not> in_none_empty_zero b \<Longrightarrow>
   map_of (remote_loop att n tried unified sources) k = Some b"
  by (induction sources arbitrary: tried unified)
     (auto simp: merge_unified_keeps split: option.splits)

lemma regions_fallback_other:
  "regions_fallback d = Inr r \<Longrightarrow> k \<noteq> ''regions'' \<Longrightarrow> map_of r k = map_of d k"
  by (auto simp: regions_fallback_def update_conv' Let_def split: if_splits sum.splits)

lemma regions_fallback_key_kept:
  "regions_fallback d = Inr r \<Longrightarrow> map_of d k \<noteq> None \<Longrightarrow> map_of r k \<noteq> None"
  by (auto simp: regions_fallback_def update_conv' Let_def split: if_splits sum.splits)

lemma template_keys:
  "k \<in> set schema_keys \<Longrightarrow> map_of (AList.update ''ip'' (PStr ip) unified_template) k \<noteq> None"
  by (auto simp: unified_template_def schema_keys_def update_conv')

lemma template_ip:
  "map_of (AList.update ''ip'' (PStr ip) unified_template) ''ip'' = Some (PStr ip)"
  by (simp add: update_conv')

lemma template_value:
  "k \<in> set schema_keys \<Longrightarrow> k \<noteq> ''ip'' \<Longrightarrow>
   map_of (AList.update ''ip'' (PStr ip) unified_template) k = Some (PStr [])"
  by (auto simp: unified_template_def schema_keys_def update_conv')

lemma truthy_not_blank: "py_truthy v \<Longrightarrow> \<not> in_none_empty_zero v"
  by (cases v) (auto simp: in_none_empty_zero_def)

lemma join_nonempty: "xs \<noteq> [] \<Longrightarrow> hd xs \<noteq> [] \<Longrightarrow> join sep xs \<noteq> []"
  by (induction sep xs rule: join.induct) auto

lemma str_items_Some: "str_items vs = Some ss \<Longrightarrow> vs = map PStr ss"
proof (induction vs arbitrary: ss rule: str_items.induct)
  case 1
  then show ?case by simp
next
  case (2 s vs)
  then show ?case by (auto split: option.splits)
qed simp_all

lemma hd_filter_holds: "filter P xs \<noteq> [] \<Longrightarrow> P (hd (filter P xs))"
  by (induction xs) auto

lemma regions_fallback_post:
  assumes "regions_fallback d = Inr r"
  shows "py_truthy (dict_get r ''regions'')
         \<or> (\<not> py_truthy (dict_get_default r ''province'' (PStr []))
            \<and> \<not> py_truthy (dict_get_default r ''city'' (PStr [])))"
proof (cases "py_truthy (dict_get d ''regions'')")
  case True
  then show ?thesis using assms by (simp add: regions_fallback_def)
next
  case False
  let ?parts = "[dict_get_default d ''province'' (PStr []), dict_get_default d ''city'' (PStr [])]"
  show ?thesis
  proof (cases "list_ex py_truthy ?parts")
    case any: True
    from assms False any obtain s where
      j: "py_join '','' (filter py_truthy ?parts) = Inr s" and r: "r = AList.update ''regions'' (PStr s) d"
      by (auto simp: regions_fallback_def Let_def split: sum.splits)
    from j obtain ss where ss: "str_items (filter py_truthy ?parts) = Some ss" and s: "s = join '','' ss"
      by (auto simp: py_join_def split: option.splits)
    from ss have m: "filter py_truthy ?parts = map PStr ss" by (rule str_items_Some)
    from any have "filter py_truthy ?parts \<noteq> []" by (auto simp: list_ex_iff filter_empty_conv)
    with m have ne: "ss \<noteq> []" by auto
    have "py_truthy (hd (filter py_truthy ?parts))"
      using \<open>filter py_truthy ?parts \<noteq> []\<close> by (rule hd_filter_holds)
    with m ne have "hd ss \<noteq> []" by (cases ss) auto
    with ne have "s \<noteq> []" unfolding s by (rule join_nonempty)
    then show ?thesis by (simp add: r dict_get_def update_conv')
  next
    case none: False
    with assms False have "r = AList.update ''regions'' (PStr []) d"
      by (auto simp: regions_fallback_def Let_def)
    then show ?thesis using none by (simp add: dict_get_default_def update_conv')
  qed
qed

lemma regions_fallback_total:
  assumes "py_truthy (dict_get d ''regions'')
           \<or> ((\<not> py_truthy (dict_get_default d ''province'' (PStr []))
                 \<or> (\<exists>s. dict_get_default d ''province'' (PStr []) = PStr s))
              \<and> (\<not> py_truthy (dict_get_default d ''city'' (PStr []))
                 \<or> (\<exists>s. dict_get_default d ''city'' (PStr []) = PStr s)))"
  shows "\<exists>r. regions_fallback d = Inr r"
  using assms
  by (auto simp: regions_fallback_def Let_def py_join_def split: sum.splits option.splits)

section \<open>Shape of the local result\<close>

lemma opt_str_not_None [simp]: "opt_str x \<noteq> PNone"
  by (simp add: opt_str_def split: option.splits)

lemma opt_int_not_None [simp]: "opt_int x \<noteq> PNone"
  by (simp add: opt_int_def split: option.splits)

lemma opt_float_not_None [simp]: "opt_float x \<noteq> PNone"
  by (simp add: opt_float_def split: option.splits)

lemma regions_value_not_None [simp]:
  "(case x of None \<Rightarrow> PStr [] | Some rs \<Rightarrow> if rs \<noteq> [] then PStr (join sep rs) else PStr []) \<noteq> PNone"
  by (simp split: option.splits)

lemma opt_str_is_str [simp]: "\<exists>s. opt_str x = PStr s"
  by (simp add: opt_str_def split: option.splits)

lemma regions_value_is_str [simp]:
  "\<exists>s. (case x of None \<Rightarrow> PStr [] | Some rs \<Rightarrow> if rs \<noteq> [] then PStr (join sep rs) else PStr []) = PStr s"
  by (simp split: option.splits)

lemma build_uniform_result_eq:
  "build_uniform_result info =
       [(''ip'', PStr (i_ip info)),
        (''addr'', opt_str (i_addr info)),
        (''as_number'', opt_int (case i_as info of None \<Rightarrow> None | Some a \<Rightarrow> as_number a)),
        (''as_name'', opt_str (case i_as info of None \<Rightarrow> None | Some a \<Rightarrow> as_name a)),
        (''as_info'', opt_str (case i_as info of None \<Rightarrow> None | Some a \<Rightarrow> as_info a)),
        (''country_code'', opt_str (map_option cd_code (i_country info))),
        (''country_name'', opt_str (map_option cd_name (i_country info))),
        (''registered_country_code'', opt_str (map_option cd_code (i_registered_country info))),
        (''registered_country_name'', opt_str (map_option cd_name (i_registered_country info))),
        (''latitude'', opt_float (case i_location info of None \<Rightarrow> None | Some l \<Rightarrow> latitude l)),
        (''longitude'', opt_float (case i_location info of None \<Rightarrow> None | Some l \<Rightarrow> longitude l)),
        (''province'', opt_str (i_province info)),
        (''city'', opt_str (i_city info)),
        (''regions'', (case i_regions info of
                         None \<Rightarrow> PStr []
                       | Some rs \<Rightarrow> if rs \<noteq> [] then PStr (join '','' rs) else PStr [])),
        (''type'', opt_str (i_type info))]"
  by (simp add: build_uniform_result_def)

lemma build_uniform_result_distinct: "distinct (map fst (build_uniform_result info))"
  by (simp add: build_uniform_result_eq)

lemma build_uniform_result_dom:
  "map fst (build_uniform_result info) =
     [''ip'', ''addr'', ''as_number'', ''as_name'', ''as_info'', ''country_code'',
      ''country_name'', ''registered_country_code'', ''registered_country_name'',
      ''latitude'', ''longitude'', ''province'', ''city'', ''regions'', ''type'']"
  by (simp add: build_uniform_result_eq)

lemma build_uniform_result_keys:
  "map_of (build_uniform_result info) k \<noteq> None \<longleftrightarrow>
     k \<in> set schema_keys \<and> k \<noteq> ''timezone'' \<and> k \<noteq> ''isp''"
proof -
  have "map_of (build_uniform_result info) k \<noteq> None \<longleftrightarrow> k \<in> set (map fst (build_uniform_result info))"
    by (simp add: map_of_eq_None_iff)
  then show ?thesis
    unfolding build_uniform_result_dom schema_keys_def by auto
qed

lemma build_uniform_result_all_not_None:
  "list_all (\<lambda>kv. snd kv \<noteq> PNone) (build_uniform_result info)"
  by (simp add: build_uniform_result_eq)

lemma build_uniform_result_not_None:
  "map_of (build_uniform_result info) k \<noteq> Some PNone"
proof
  assume "map_of (build_uniform_result info) k = Some PNone"
  then have "(k, PNone) \<in> set (build_uniform_result info)" by (rule map_of_SomeD)
  with build_uniform_result_all_not_None [of info] show False
    by (auto simp: list_all_iff)
qed

lemma build_uniform_result_all_str:
  "list_all (\<lambda>kv. fst kv = ''as_number'' \<or> fst kv = ''latitude'' \<or> fst kv = ''longitude''
                  \<or> (\<exists>s. snd kv = PStr s)) (build_uniform_result info)"
  by (simp add: build_uniform_result_eq)

lemma build_uniform_result_str:
  assumes "map_of (build_uniform_result info) k = Some v"
    and "k \<noteq> ''as_number''" "k \<noteq> ''latitude''" "k \<noteq> ''longitude''"
  shows "\<exists>s. v = PStr s"
proof -
  from assms(1) have "(k, v) \<in> set (build_uniform_result info)" by (rule map_of_SomeD)
  with build_uniform_result_all_str [of info] assms(2-) show ?thesis
    by (auto simp: list_all_iff)
qed

lemma build_uniform_result_value:
  "map_of (build_uniform_result info) ''ip'' = Some (PStr (i_ip info))"
  "map_of (build_uniform_result info) ''province'' = Some (opt_str (i_province info))"
  "map_of (build_uniform_result info) ''city'' = Some (opt_str (i_city info))"
  "map_of (build_uniform_result info) ''regions'' =
     Some (case i_regions info of
             None \<Rightarrow> PStr []
           | Some rs \<Rightarrow> if rs \<noteq> [] then PStr (join '','' rs) else PStr [])"
  by (simp_all add: build_uniform_result_eq)

text \<open>Whenever a province or a city is set, the region list is non-empty and starts with a non-empty name.\<close>

lemma de_duplicate_hd_nonempty: "de_duplicate xs \<noteq> [] \<Longrightarrow> hd (de_duplicate xs) \<noteq> []"
proof -
  assume ne: "de_duplicate xs \<noteq> []"
  then have "hd (de_duplicate xs) \<in> set (de_duplicate xs)" by (rule hd_in_set)
  then show ?thesis by (simp add: de_duplicate_eq_spec set_deduplicateOrdered_spec)
qed

lemma maxmind_province_city_cover:
  assumes "i_province ret = None" and "i_city ret = None"
  shows "(i_province (maxmind_province_city ret rg) \<noteq> None \<or> i_city (maxmind_province_city ret rg) \<noteq> None)
         \<longrightarrow> (\<exists>rs. i_regions (maxmind_province_city ret rg) = Some rs \<and> rs \<noteq> [] \<and> hd rs \<noteq> [])"
  using assms by (auto simp: maxmind_province_city_def Let_def de_duplicate_hd_nonempty)

lemma maxmind_province_city_ip [simp]: "i_ip (maxmind_province_city ret rg) = i_ip ret"
  by (simp add: maxmind_province_city_def Let_def)

lemma maxmind_geo_cover:
  assumes "maxmind_geo ret c = Inr ret'" and "i_province ret = None" and "i_city ret = None"
  shows "i_ip ret' = i_ip ret \<and>
         ((i_province ret' \<noteq> None \<or> i_city ret' \<noteq> None)
          \<longrightarrow> (\<exists>rs. i_regions ret' = Some rs \<and> rs \<noteq> [] \<and> hd rs \<noteq> []))"
proof -
  from assms(1) obtain ret3 rg where r: "ret' = maxmind_province_city ret3 rg"
    and p: "i_province ret3 = i_province ret" "i_city ret3 = i_city ret" "i_ip ret3 = i_ip ret"
    by (auto simp: maxmind_geo_def Let_def split: option.splits sum.splits)
  show ?thesis
    unfolding r using maxmind_province_city_cover [of ret3 rg] p assms(2,3) by simp
qed

lemma maxmind_geo_cover':
  "maxmind_geo ret c = Inr ret' \<Longrightarrow>
   i_province ret = None \<and> i_city ret = None \<longrightarrow>
     i_ip ret' = i_ip ret \<and>
     ((i_province ret' \<noteq> None \<or> i_city ret' \<noteq> None)
      \<longrightarrow> (\<exists>rs. i_regions ret' = Some rs \<and> rs \<noteq> [] \<and> hd rs \<noteq> []))"
  using maxmind_geo_cover by blast

lemma get_maxmind_cover:
  assumes "get_maxmind E ip = Inr ret"
  shows "i_ip ret = ip \<and>
         ((i_province ret \<noteq> None \<or> i_city ret \<noteq> None)
          \<longrightarrow> (\<exists>rs. i_regions ret = Some rs \<and> rs \<noteq> [] \<and> hd rs \<noteq> []))"
  using assms
  by (auto simp: get_maxmind_def empty_info_def
           split: option.splits sum.splits prod.splits dest!: maxmind_geo_cover')

lemma cn_type_fields [simp]:
  "i_ip (cn_type info n) = i_ip info"
  "i_province (cn_type info n) = i_province info"
  "i_city (cn_type info n) = i_city info"
  "i_regions (cn_type info n) = i_regions info"
  "i_as (cn_type info n) = i_as info"
  by (simp_all add: cn_type_def)

lemma cn_as_fields [simp]:
  "i_ip (cn_as info isp) = i_ip info"
  "i_province (cn_as info isp) = i_province info"
  "i_city (cn_as info isp) = i_city info"
  "i_regions (cn_as info isp) = i_regions info"
  by (simp_all add: cn_as_def Let_def)

lemma cn_regions_ip [simp]: "i_ip (cn_regions info rg) = i_ip info"
  by (simp add: cn_regions_def Let_def)

lemma cn_regions_cover:
  assumes "(i_province info \<noteq> None \<or> i_city info \<noteq> None)
            \<longrightarrow> (\<exists>rs. i_regions info = Some rs \<and> rs \<noteq> [] \<and> hd rs \<noteq> [])"
    and "rg \<noteq> [] \<longrightarrow> hd rg \<noteq> []"
  shows "(i_province (cn_regions info rg) \<noteq> None \<or> i_city (cn_regions info rg) \<noteq> None)
          \<longrightarrow> (\<exists>rs. i_regions (cn_regions info rg) = Some rs \<and> rs \<noteq> [] \<and> hd rs \<noteq> [])"
proof (cases "rg = []")
  case True
  then show ?thesis using assms(1) by (simp add: cn_regions_def)
next
  case False
  then have "i_regions (cn_regions info rg) = Some rg"
    by (simp add: cn_regions_def Let_def)
  with False assms(2) show ?thesis by simp
qed

lemma get_cn_cover:
  assumes "get_cn E ip info = Inr info'"
    and "(i_province info \<noteq> None \<or> i_city info \<noteq> None)
          \<longrightarrow> (\<exists>rs. i_regions info = Some rs \<and> rs \<noteq> [] \<and> hd rs \<noteq> [])"
  shows "i_ip info' = i_ip info \<and>
         ((i_province info' \<noteq> None \<or> i_city info' \<noteq> None)
          \<longrightarrow> (\<exists>rs. i_regions info' = Some rs \<and> rs \<noteq> [] \<and> hd rs \<noteq> []))"
proof (cases "info' = info")
  case True
  then show ?thesis using assms(2) by simp
next
  case False
  with assms(1) obtain a rg isp n where
    i: "info' = cn_type (cn_as (cn_regions (info\<lparr>i_addr := Some a\<rparr>) (de_duplicate rg)) isp) n"
    by (auto simp: get_cn_def split: sum.splits prod.splits option.splits)
  have h: "de_duplicate rg \<noteq> [] \<longrightarrow> hd (de_duplicate rg) \<noteq> []"
    by (simp add: de_duplicate_hd_nonempty)
  have c: "(i_province (info\<lparr>i_addr := Some a\<rparr>) \<noteq> None \<or> i_city (info\<lparr>i_addr := Some a\<rparr>) \<noteq> None)
          \<longrightarrow> (\<exists>rs. i_regions (info\<lparr>i_addr := Some a\<rparr>) = Some rs \<and> rs \<noteq> [] \<and> hd rs \<noteq> [])"
    using assms(2) by simp
  from cn_regions_cover [OF c h] show ?thesis
    unfolding i by simp
qed

lemma get_ip_info_local_shape:
  assumes "get_ip_info_local E ip = Inr l"
  shows "\<exists>info. l = build_uniform_result info \<and> i_ip info = ip \<and>
           ((i_province info \<noteq> None \<or> i_city info \<noteq> None)
            \<longrightarrow> (\<exists>rs. i_regions info = Some rs \<and> rs \<noteq> [] \<and> hd rs \<noteq> []))"
proof -
  from assms obtain info where m: "get_maxmind E ip = Inr info"
    by (auto simp: get_ip_info_local_def split: sum.splits)
  note c = get_maxmind_cover [OF m]
  show ?thesis
  proof (cases "\<exists>info'. get_cn E ip info = Inr info' \<and> l = build_uniform_result info'")
    case True
    then obtain info' where g: "get_cn E ip info = Inr info'" and l: "l = build_uniform_result info'"
      by blast
    from get_cn_cover [OF g] c l show ?thesis by auto
  next
    case False
    with assms m have "l = build_uniform_result info"
      by (auto simp: get_ip_info_local_def split: sum.splits if_splits)
    with c show ?thesis by auto
  qed
qed

section \<open>The coordinator always returns\<close>

lemma get_ip_info_remote_keys:
  assumes "get_ip_info_remote E ip n lng = Inr r" and "k \<in> set schema_keys"
  shows "map_of r k \<noteq> None"
proof -
  let ?u = "remote_loop (attempt E) n 0 (AList.update ''ip'' (PStr ip) unified_template)
              (shuffle E (sources_for_ip ip lng))"
  have "map_of ?u k \<noteq> None"
    using template_keys [OF assms(2)] by (rule remote_loop_key_kept)
  moreover have "regions_fallback ?u = Inr r"
    using assms(1) by (simp add: get_ip_info_remote_def)
  ultimately show ?thesis by (rule regions_fallback_key_kept [rotated])
qed

lemma get_ip_info_remote_ip:
  assumes "get_ip_info_remote E ip n lng = Inr r" and "ip \<noteq> []"
  shows "map_of r ''ip'' = Some (PStr ip)"
proof -
  let ?u = "remote_loop (attempt E) n 0 (AList.update ''ip'' (PStr ip) unified_template)
              (shuffle E (sources_for_ip ip lng))"
  have nb: "\<not> in_none_empty_zero (PStr ip)"
    using assms(2) by (simp add: in_none_empty_zero_def)
  have "map_of ?u ''ip'' = Some (PStr ip)"
    using template_ip nb by (rule remote_loop_keeps)
  moreover have "regions_fallback ?u = Inr r"
    using assms(1) by (simp add: get_ip_info_remote_def)
  ultimately show ?thesis by (simp add: regions_fallback_other)
qed

text \<open>The remote record that the coordinator merges into, and the local one.\<close>

lemma remote_or_template_post:
  "py_truthy (dict_get (case get_ip_info_remote E ip 3 ''zh-CN'' of
                          Inl e \<Rightarrow> AList.update ''ip'' (PStr ip) unified_template
                        | Inr r \<Rightarrow> r) ''regions'')
   \<or> (\<not> py_truthy (dict_get_default (case get_ip_info_remote E ip 3 ''zh-CN'' of
                          Inl e \<Rightarrow> AList.update ''ip'' (PStr ip) unified_template
                        | Inr r \<Rightarrow> r) ''province'' (PStr []))
      \<and> \<not> py_truthy (dict_get_default (case get_ip_info_remote E ip 3 ''zh-CN'' of
                          Inl e \<Rightarrow> AList.update ''ip'' (PStr ip) unified_template
                        | Inr r \<Rightarrow> r) ''city'' (PStr [])))"
proof (cases "get_ip_info_remote E ip 3 ''zh-CN''")
  case (Inl e)
  then show ?thesis
    by (simp add: dict_get_default_def unified_template_def schema_keys_def update_conv')
next
  case (Inr r)
  then have "regions_fallback
      (remote_loop (attempt E) 3 0 (AList.update ''ip'' (PStr ip) unified_template)
         (shuffle E (sources_for_ip ip ''zh-CN''))) = Inr r"
    by (simp add: get_ip_info_remote_def)
  then show ?thesis using Inr regions_fallback_post by simp
qed

lemma remote_or_template_keys:
  assumes "k \<in> set schema_keys"
  shows "map_of (case get_ip_info_remote E ip 3 ''zh-CN'' of
                   Inl e \<Rightarrow> AList.update ''ip'' (PStr ip) unified_template
                 | Inr r \<Rightarrow> r) k \<noteq> None"
  using assms get_ip_info_remote_keys template_keys by (auto split: sum.splits)

lemma local_or_empty_distinct:
  "distinct (map fst (case get_ip_info_local E ip of Inl e \<Rightarrow> [] | Inr l \<Rightarrow> l))"
  by (auto split: sum.splits dest!: get_ip_info_local_shape simp: build_uniform_result_distinct)

lemma local_or_empty_str:
  assumes "map_of (case get_ip_info_local E ip of Inl e \<Rightarrow> [] | Inr l \<Rightarrow> l) k = Some v"
    and "k \<noteq> ''as_number''" "k \<noteq> ''latitude''" "k \<noteq> ''longitude''"
  shows "\<exists>s. v = PStr s"
proof (cases "get_ip_info_local E ip")
  case (Inl e)
  then show ?thesis using assms(1) by simp
next
  case (Inr l)
  then obtain info where "l = build_uniform_result info"
    using get_ip_info_local_shape by blast
  then show ?thesis using assms Inr build_uniform_result_str by simp
qed

lemma merged_field_safe:
  assumes d: "distinct (map fst inc)"
    and s: "\<And>v. map_of inc k = Some v \<Longrightarrow> \<exists>s. v = PStr s"
    and f: "\<not> py_truthy (dict_get_default base k (PStr []))"
  shows "\<not> py_truthy (dict_get_default (merge_unified base inc) k (PStr []))
         \<or> (\<exists>s. dict_get_default (merge_unified base inc) k (PStr []) = PStr s)"
proof (cases "map_of (merge_unified base inc) k = map_of base k")
  case True
  then show ?thesis using f by (simp add: dict_get_default_def)
next
  case False
  then obtain v where "map_of inc k = Some v" and "map_of (merge_unified base inc) k = Some v"
    unfolding map_of_merge_unified [OF d] by (auto split: option.splits if_splits)
  with s show ?thesis by (auto simp: dict_get_default_def)
qed

lemma merged_regions_truthy:
  assumes "py_truthy (dict_get base ''regions'')"
  shows "py_truthy (dict_get (merge_unified base inc) ''regions'')"
proof -
  from assms obtain v where v: "map_of base ''regions'' = Some v" and t: "py_truthy v"
    by (auto simp: dict_get_def split: option.splits)
  from t have "\<not> in_none_empty_zero v" by (rule truthy_not_blank)
  with v have "map_of (merge_unified base inc) ''regions'' = Some v"
    by (rule merge_unified_keeps)
  with t show ?thesis by (simp add: dict_get_def)
qed

lemma get_ip_info_total: "\<exists>r. get_ip_info E ip = Inr r"
proof -
  let ?remote = "(case get_ip_info_remote E ip 3 ''zh-CN'' of
                   Inl e \<Rightarrow> AList.update ''ip'' (PStr ip) unified_template
                 | Inr r \<Rightarrow> r)"
  let ?local = "(case get_ip_info_local E ip of Inl e \<Rightarrow> [] | Inr l \<Rightarrow> l)"
  have g: "get_ip_info E ip = regions_fallback (merge_unified ?remote ?local)"
    by (simp add: get_ip_info_def Let_def)
  have "py_truthy (dict_get (merge_unified ?remote ?local) ''regions'')
        \<or> ((\<not> py_truthy (dict_get_default (merge_unified ?remote ?local) ''province'' (PStr []))
              \<or> (\<exists>s. dict_get_default (merge_unified ?remote ?local) ''province'' (PStr []) = PStr s))
           \<and> (\<not> py_truthy (dict_get_default (merge_unified ?remote ?local) ''city'' (PStr []))
              \<or> (\<exists>s. dict_get_default (merge_unified ?remote ?local) ''city'' (PStr []) = PStr s)))"
  proof (cases "py_truthy (dict_get ?remote ''regions'')")
    case True
    then show ?thesis using merged_regions_truthy by blast
  next
    case False
    with remote_or_template_post [where E = E and ip = ip]
    have p: "\<not> py_truthy (dict_get_default ?remote ''province'' (PStr []))"
      and c: "\<not> py_truthy (dict_get_default ?remote ''city'' (PStr []))"
      by blast+
    have sp: "\<And>v. map_of ?local ''province'' = Some v \<Longrightarrow> \<exists>s. v = PStr s"
      using local_or_empty_str [where E = E and ip = ip and k = "''province''"] by simp
    have sc: "\<And>v. map_of ?local ''city'' = Some v \<Longrightarrow> \<exists>s. v = PStr s"
      using local_or_empty_str [where E = E and ip = ip and k = "''city''"] by simp
    from merged_field_safe [OF local_or_empty_distinct sp p]
         merged_field_safe [OF local_or_empty_distinct sc c]
    show ?thesis by blast
  qed
  then show ?thesis unfolding g by (rule regions_fallback_total)
qed

section \<open>The ip field\<close>

lemma get_ip_info_unfold:
  "get_ip_info E ip =
     regions_fallback
       (merge_unified
          (case get_ip_info_remote E ip 3 ''zh-CN'' of
             Inl e \<Rightarrow> AList.update ''ip'' (PStr ip) unified_template
           | Inr r \<Rightarrow> r)
          (case get_ip_info_local E ip of Inl e \<Rightarrow> [] | Inr l \<Rightarrow> l))"
  by (simp add: get_ip_info_def Let_def)

lemma remote_or_template_ip:
  assumes "ip \<noteq> []"
  shows "map_of (case get_ip_info_remote E ip 3 ''zh-CN'' of
                   Inl e \<Rightarrow> AList.update ''ip'' (PStr ip) unified_template
                 | Inr r \<Rightarrow> r) ''ip'' = Some (PStr ip)"
  using assms get_ip_info_remote_ip template_ip by (auto split: sum.splits)

lemma get_ip_info_ip:
  assumes "ip \<noteq> []" and "get_ip_info E ip = Inr r"
  shows "map_of r ''ip'' = Some (PStr ip)"
proof -
  have nb: "\<not> in_none_empty_zero (PStr ip)"
    using assms(1) by (simp add: in_none_empty_zero_def)
  have "map_of (merge_unified
          (case get_ip_info_remote E ip 3 ''zh-CN'' of
             Inl e \<Rightarrow> AList.update ''ip'' (PStr ip) unified_template
           | Inr r \<Rightarrow> r)
          (case get_ip_info_local E ip of Inl e \<Rightarrow> [] | Inr l \<Rightarrow> l)) ''ip'' = Some (PStr ip)"
    using remote_or_template_ip [OF assms(1)] nb by (rule merge_unified_keeps)
  moreover have "(''ip'' :: string) \<noteq> ''regions''" by simp
  ultimately show ?thesis
    using assms(2) unfolding get_ip_info_unfold by (simp add: regions_fallback_other)
qed

text \<open>
  Claim C9. For every non-empty input \<open>ip\<close>, the \<^verbatim>\<open>ip\<close> field of a record returned by
  \<^verbatim>\<open>get_ip_info_remote\<close> is the input, whatever the remote sources answer and in whatever
  order they are asked, and \<^verbatim>\<open>get_ip_info\<close> returns a record whose \<^verbatim>\<open>ip\<close> field is the
  input.
\<close>

theorem ip_field_is_the_input:
  assumes "ip \<noteq> []"
  shows "(\<forall>r. get_ip_info_remote E ip max_sources lng = Inr r \<longrightarrow> map_of r ''ip'' = Some (PStr ip))
         \<and> (\<exists>r. get_ip_info E ip = Inr r \<and> map_of r ''ip'' = Some (PStr ip))"
proof -
  have a: "\<forall>r. get_ip_info_remote E ip max_sources lng = Inr r \<longrightarrow> map_of r ''ip'' = Some (PStr ip)"
    using assms get_ip_info_remote_ip by blast
  obtain r where r: "get_ip_info E ip = Inr r"
    using get_ip_info_total by blast
  with assms have "map_of r ''ip'' = Some (PStr ip)" by (rule get_ip_info_ip)
  with a r show ?thesis by blast
qed

theorem ip_field_is_the_input_witness:
  "''8.8.8.8'' \<noteq> []
   \<and> get_ip_info_remote env_remote_other_ip ''8.8.8.8'' 3 ''zh-CN'' =
       Inr [(''ip'', PStr ''8.8.8.8''), (''addr'', PStr []), (''as_number'', PStr []),
            (''as_name'', PStr []), (''as_info'', PStr []), (''country_code'', PStr []),
            (''country_name'', PStr []), (''registered_country_code'', PStr []),
            (''registered_country_name'', PStr []), (''latitude'', PStr []),
            (''longitude'', PStr []), (''province'', PStr []), (''city'', PStr []),
            (''regions'', PStr []), (''type'', PStr []), (''timezone'', PStr ''UTC''),
            (''isp'', PStr [])]
   \<and> (\<exists>r. get_ip_info env_remote_other_ip ''8.8.8.8'' = Inr r \<and> map_of r ''ip'' = Some (PStr ''8.8.8.8''))"
proof -
  have n: "''8.8.8.8'' \<noteq> []" by simp
  have e: "get_ip_info_remote env_remote_other_ip ''8.8.8.8'' 3 ''zh-CN'' =
       Inr [(''ip'', PStr ''8.8.8.8''), (''addr'', PStr []), (''as_number'', PStr []),
            (''as_name'', PStr []), (''as_info'', PStr []), (''country_code'', PStr []),
            (''country_name'', PStr []), (''registered_country_code'', PStr []),
            (''registered_country_name'', PStr []), (''latitude'', PStr []),
            (''longitude'', PStr []), (''province'', PStr []), (''city'', PStr []),
            (''regions'', PStr []), (''type'', PStr []), (''timezone'', PStr ''UTC''),
            (''isp'', PStr [])]"
    by code_simp
  from ip_field_is_the_input [OF n, of env_remote_other_ip 3 "''zh-CN''"] n e
  show ?thesis by blast
qed

section \<open>Shape of the returned record\<close>

lemma remote_loop_all_fail:
  "(\<forall>src. att src = None) \<Longrightarrow> remote_loop att n tried unified sources = unified"
  by (induction sources arbitrary: tried) auto

lemma regions_fallback_template:
  "regions_fallback (AList.update ''ip'' (PStr ip) unified_template)
     = Inr (AList.update ''ip'' (PStr ip) unified_template)"
  by (simp add: regions_fallback_def unified_template_def schema_keys_def dict_get_def
        dict_get_default_def)

lemma get_ip_info_remote_all_fail:
  "(\<forall>src. attempt E src = None) \<Longrightarrow>
   get_ip_info_remote E ip n lng = Inr (AList.update ''ip'' (PStr ip) unified_template)"
  by (simp add: get_ip_info_remote_def remote_loop_all_fail regions_fallback_template)

lemma regions_fallback_regions:
  "regions_fallback d = Inr r \<Longrightarrow>
   map_of r ''regions'' = map_of d ''regions'' \<or> (\<exists>s. map_of r ''regions'' = Some (PStr s))"
  by (auto simp: regions_fallback_def update_conv' Let_def split: if_splits sum.splits)

lemma template_is_str:
  "k \<in> set schema_keys \<Longrightarrow>
   \<exists>s. map_of (AList.update ''ip'' (PStr ip) unified_template) k = Some (PStr s)"
  by (cases "k = ''ip''") (simp_all add: template_ip template_value)

lemma merge_template_local_typed:
  assumes k: "k \<in> set schema_keys"
  shows "\<exists>v. map_of (merge_unified (AList.update ''ip'' (PStr ip) unified_template)
                 (case get_ip_info_local E ip of Inl e \<Rightarrow> [] | Inr l \<Rightarrow> l)) k = Some v
             \<and> v \<noteq> PNone
             \<and> (k = ''as_number'' \<or> k = ''latitude'' \<or> k = ''longitude'' \<or> is_str v)"
proof -
  let ?T = "AList.update ''ip'' (PStr ip) unified_template"
  let ?L = "(case get_ip_info_local E ip of Inl e \<Rightarrow> [] | Inr l \<Rightarrow> l)"
  from template_is_str [OF k] obtain s where T: "map_of ?T k = Some (PStr s)" by blast
  show ?thesis
  proof (cases "map_of (merge_unified ?T ?L) k = map_of ?T k")
    case True
    with T show ?thesis by simp
  next
    case False
    then obtain v where v: "map_of ?L k = Some v" and m: "map_of (merge_unified ?T ?L) k = Some v"
      unfolding map_of_merge_unified [OF local_or_empty_distinct]
      by (auto split: option.splits if_splits)
    from v obtain info where l: "?L = build_uniform_result info"
      using get_ip_info_local_shape [of E ip] by (auto split: sum.splits)
    have "v \<noteq> PNone"
      using v build_uniform_result_not_None [of info k] unfolding l by auto
    moreover have "k = ''as_number'' \<or> k = ''latitude'' \<or> k = ''longitude'' \<or> is_str v"
    proof (cases "k = ''as_number'' \<or> k = ''latitude'' \<or> k = ''longitude''")
      case True
      then show ?thesis by blast
    next
      case False
      then obtain s where "v = PStr s" using local_or_empty_str [OF v] by blast
      then show ?thesis by simp
    qed
    ultimately show ?thesis using m by simp
  qed
qed

lemma get_ip_info_keys:
  assumes "get_ip_info E ip = Inr r" and "k \<in> set schema_keys"
  shows "map_of r k \<noteq> None"
proof -
  have "map_of (merge_unified
          (case get_ip_info_remote E ip 3 ''zh-CN'' of
             Inl e \<Rightarrow> AList.update ''ip'' (PStr ip) unified_template
           | Inr r \<Rightarrow> r)
          (case get_ip_info_local E ip of Inl e \<Rightarrow> [] | Inr l \<Rightarrow> l)) k \<noteq> None"
    using remote_or_template_keys [OF assms(2)] by (rule merge_unified_key_kept)
  then show ?thesis
    using assms(1) unfolding get_ip_info_unfold by (rule regions_fallback_key_kept [rotated])
qed

lemma get_ip_info_all_fail_typed:
  assumes f: "\<forall>src. attempt E src = None"
    and g: "get_ip_info E ip = Inr r" and k: "k \<in> set schema_keys"
  shows "\<exists>v. map_of r k = Some v \<and> v \<noteq> PNone
             \<and> (k = ''as_number'' \<or> k = ''latitude'' \<or> k = ''longitude'' \<or> is_str v)"
proof -
  let ?M = "merge_unified (AList.update ''ip'' (PStr ip) unified_template)
              (case get_ip_info_local E ip of Inl e \<Rightarrow> [] | Inr l \<Rightarrow> l)"
  have rf: "regions_fallback ?M = Inr r"
    using g unfolding get_ip_info_unfold by (simp add: get_ip_info_remote_all_fail [OF f])
  from merge_template_local_typed [OF k, of ip E] obtain v where
    v: "map_of ?M k = Some v" "v \<noteq> PNone"
       "k = ''as_number'' \<or> k = ''latitude'' \<or> k = ''longitude'' \<or> is_str v"
    by blast
  show ?thesis
  proof (cases "map_of r k = map_of ?M k")
    case True
    with v show ?thesis by simp
  next
    case False
    then have "k = ''regions''" using regions_fallback_other [OF rf] by blast
    with False regions_fallback_regions [OF rf] show ?thesis by auto
  qed
qed

text \<open>
  Claim C1, as amended. For every input (the address need not even be valid) and whatever
  the remote sources and the local databases answer or raise, \<^verbatim>\<open>get_ip_info\<close> returns a
  record in which every one of the seventeen fields of the unified schema is present as
  a key. When no remote source answers, no field is \<^verbatim>\<open>None\<close> and every field other than
  \<^verbatim>\<open>as_number\<close>, \<^verbatim>\<open>latitude\<close> and \<^verbatim>\<open>longitude\<close> is a string, the empty string standing for
  absent data.
\<close>

theorem unified_fields_always_present:
  "\<exists>r. get_ip_info E ip = Inr r
       \<and> list_all (\<lambda>k. map_of r k \<noteq> None) schema_keys
       \<and> ((\<forall>src. attempt E src = None) \<longrightarrow>
            list_all (\<lambda>k. \<exists>v. map_of r k = Some v \<and> v \<noteq> PNone
                          \<and> (k = ''as_number'' \<or> k = ''latitude'' \<or> k = ''longitude'' \<or> is_str v))
              schema_keys)"
proof -
  obtain r where r: "get_ip_info E ip = Inr r"
    using get_ip_info_total by blast
  have a: "list_all (\<lambda>k. map_of r k \<noteq> None) schema_keys"
    unfolding list_all_iff using get_ip_info_keys [OF r] by blast
  have b: "(\<forall>src. attempt E src = None) \<longrightarrow>
            list_all (\<lambda>k. \<exists>v. map_of r k = Some v \<and> v \<noteq> PNone
                          \<and> (k = ''as_number'' \<or> k = ''latitude'' \<or> k = ''longitude'' \<or> is_str v))
              schema_keys"
    unfolding list_all_iff using get_ip_info_all_fail_typed [OF _ r] by blast
  from r a b show ?thesis by blast
qed

theorem unified_fields_always_present_witness:
  "(\<forall>src. attempt env_remote_down src = None)
   \<and> (\<exists>r. get_ip_info env_remote_down ''8.8.8.8'' = Inr r
       \<and> list_all (\<lambda>k. map_of r k \<noteq> None) schema_keys
       \<and> list_all (\<lambda>k. \<exists>v. map_of r k = Some v \<and> v \<noteq> PNone
                          \<and> (k = ''as_number'' \<or> k = ''latitude'' \<or> k = ''longitude'' \<or> is_str v))
              schema_keys)"
proof -
  have f: "\<forall>src. attempt env_remote_down src = None"
    by (simp add: env_remote_down_def)
  with unified_fields_always_present [of env_remote_down "''8.8.8.8''"] show ?thesis
    by blast
qed

text \<open>
  The claim as the specification states it fails: when the remote sources are down and
  the ASN database knows the address, \<^verbatim>\<open>as_number\<close> is the integer of the database and
  not a string.
\<close>

theorem as_number_is_an_integer_counterexample:
  "get_ip_info env_remote_down ''8.8.8.8'' =
     Inr [(''ip'', PStr ''8.8.8.8''), (''addr'', PStr ''8.8.8.0/24''), (''as_number'', PInt 15169),
          (''as_name'', PStr ''GOOGLE''), (''as_info'', PStr label_guge_yun),
          (''country_code'', PStr []), (''country_name'', PStr []),
          (''registered_country_code'', PStr []), (''registered_country_name'', PStr []),
          (''latitude'', PStr []), (''longitude'', PStr []), (''province'', PStr []),
          (''city'', PStr []), (''regions'', PStr []), (''type'', PStr []),
          (''timezone'', PStr []), (''isp'', PStr [])]
   \<and> \<not> spec_shape
         [(''ip'', PStr ''8.8.8.8''), (''addr'', PStr ''8.8.8.0/24''), (''as_number'', PInt 15169),
          (''as_name'', PStr ''GOOGLE''), (''as_info'', PStr label_guge_yun),
          (''country_code'', PStr []), (''country_name'', PStr []),
          (''registered_country_code'', PStr []), (''registered_country_name'', PStr []),
          (''latitude'', PStr []), (''longitude'', PStr []), (''province'', PStr []),
          (''city'', PStr []), (''regions'', PStr []), (''type'', PStr []),
          (''timezone'', PStr []), (''isp'', PStr [])]"
  by code_simp

section \<open>Containment of remote failures\<close>

lemma merge_template_local_value:
  assumes l: "get_ip_info_local E ip = Inr l"
  shows "map_of (merge_unified (AList.update ''ip'' (PStr ip) unified_template) l) k =
           (if k = ''timezone'' \<or> k = ''isp'' then Some (PStr []) else map_of l k)"
proof -
  let ?T = "AList.update ''ip'' (PStr ip) unified_template"
  from get_ip_info_local_shape [OF l] obtain info where
    i: "l = build_uniform_result info" "i_ip info = ip" by blast
  have d: "distinct (map fst l)" unfolding i by (rule build_uniform_result_distinct)
  have keys: "map_of l k \<noteq> None \<longleftrightarrow> k \<in> set schema_keys \<and> k \<noteq> ''timezone'' \<and> k \<noteq> ''isp''"
    unfolding i by (rule build_uniform_result_keys)
  have lip: "map_of l ''ip'' = Some (PStr ip)"
    unfolding i(1) using i(2) by (simp add: build_uniform_result_value)
  show ?thesis
  proof (cases "map_of l k")
    case None
    show ?thesis
    proof (cases "k \<in> set schema_keys")
      case True
      with None keys have "k = ''timezone'' \<or> k = ''isp''" by auto
      then show ?thesis
        using None by (auto simp: map_of_merge_unified [OF d] template_value schema_keys_def)
    next
      case False
      then have "map_of ?T k = None"
        by (auto simp: unified_template_def schema_keys_def update_conv' map_of_eq_None_iff)
      moreover from False have "k \<noteq> ''timezone''" "k \<noteq> ''isp''"
        by (auto simp: schema_keys_def)
      ultimately show ?thesis using None by (simp add: map_of_merge_unified [OF d])
    qed
  next
    case (Some v)
    with keys have k: "k \<in> set schema_keys" "k \<noteq> ''timezone''" "k \<noteq> ''isp''" by auto
    show ?thesis
    proof (cases "k = ''ip''")
      case True
      then show ?thesis
        using lip by (simp add: map_of_merge_unified [OF d] template_ip dict_get_def)
    next
      case False
      have "map_of ?T k = Some (PStr [])" using k(1) False by (rule template_value)
      then show ?thesis
        using Some k by (simp add: map_of_merge_unified [OF d] dict_get_def in_none_empty_zero_def)
    qed
  qed
qed

lemma local_regions_empty:
  assumes l: "get_ip_info_local E ip = Inr l"
    and r: "\<not> py_truthy (dict_get l ''regions'')"
  shows "map_of l ''regions'' = Some (PStr []) \<and> map_of l ''province'' = Some (PStr [])
         \<and> map_of l ''city'' = Some (PStr [])"
proof -
  from get_ip_info_local_shape [OF l] obtain info where
    i: "l = build_uniform_result info"
    and c: "(i_province info \<noteq> None \<or> i_city info \<noteq> None)
            \<longrightarrow> (\<exists>rs. i_regions info = Some rs \<and> rs \<noteq> [] \<and> hd rs \<noteq> [])" by blast
  have "\<not> (\<exists>rs. i_regions info = Some rs \<and> rs \<noteq> [] \<and> hd rs \<noteq> [])"
  proof
    assume "\<exists>rs. i_regions info = Some rs \<and> rs \<noteq> [] \<and> hd rs \<noteq> []"
    then obtain rs where rs: "i_regions info = Some rs" "rs \<noteq> []" "hd rs \<noteq> []" by blast
    then have "join '','' rs \<noteq> []" by (simp add: join_nonempty)
    with rs have "py_truthy (dict_get l ''regions'')"
      unfolding i by (simp add: dict_get_def build_uniform_result_value)
    with r show False by simp
  qed
  with c have n: "i_province info = None" "i_city info = None" by auto
  have "map_of l ''regions'' = Some (PStr [])"
    using r unfolding i
    by (auto simp: dict_get_def build_uniform_result_value split: option.splits if_splits)
  with n show ?thesis unfolding i by (simp add: build_uniform_result_value opt_str_def)
qed

lemma regions_fallback_local_merge:
  assumes l: "get_ip_info_local E ip = Inr l"
    and f: "regions_fallback (merge_unified (AList.update ''ip'' (PStr ip) unified_template) l) = Inr r"
  shows "map_of r k = (if k = ''timezone'' \<or> k = ''isp'' then Some (PStr []) else map_of l k)"
proof (cases "k = ''regions''")
  case False
  then show ?thesis
    using regions_fallback_other [OF f False] merge_template_local_value [OF l] by simp
next
  case True
  let ?M = "merge_unified (AList.update ''ip'' (PStr ip) unified_template) l"
  have m: "\<And>k. map_of ?M k = (if k = ''timezone'' \<or> k = ''isp'' then Some (PStr []) else map_of l k)"
    by (rule merge_template_local_value [OF l])
  have g: "dict_get ?M ''regions'' = dict_get l ''regions''"
    by (simp add: dict_get_def m)
  show ?thesis
  proof (cases "py_truthy (dict_get l ''regions'')")
    case t: True
    then have "r = ?M" using f g by (simp add: regions_fallback_def)
    then show ?thesis using True m by simp
  next
    case e: False
    note le = local_regions_empty [OF l e]
    have "dict_get_default ?M ''province'' (PStr []) = PStr []"
         "dict_get_default ?M ''city'' (PStr []) = PStr []"
      using le by (simp_all add: dict_get_default_def m)
    then have "r = AList.update ''regions'' (PStr []) ?M"
      using f g e by (simp add: regions_fallback_def)
    then show ?thesis using True le by (simp add: update_conv')
  qed
qed

text \<open>
  Claim C3. For every input \<open>ip\<close>, if the remote aggregation pass raises (or if every
  remote source fails, which the pass itself absorbs), \<^verbatim>\<open>get_ip_info\<close> does not propagate
  an exception: it returns a record with every field of the schema.
  The remote result is replaced by the all-empty template with only \<^verbatim>\<open>ip\<close> set and the
  local pipeline still runs, so the returned record carries the local value of each of
  the fifteen local fields and the empty string for \<^verbatim>\<open>timezone\<close> and \<^verbatim>\<open>isp\<close>; when the
  local pipeline raises as well, the returned record is the template with \<^verbatim>\<open>ip\<close> set.
\<close>

theorem remote_failure_is_contained:
  assumes "get_ip_info_remote E ip 3 ''zh-CN'' = Inl e \<or> (\<forall>src. attempt E src = None)"
  shows "\<exists>r. get_ip_info E ip = Inr r
            \<and> list_all (\<lambda>k. map_of r k \<noteq> None) schema_keys
            \<and> (case get_ip_info_local E ip of
                 Inr l \<Rightarrow> \<forall>k. map_of r k =
                               (if k = ''timezone'' \<or> k = ''isp'' then Some (PStr []) else map_of l k)
               | Inl e' \<Rightarrow> r = AList.update ''ip'' (PStr ip) unified_template)"
proof -
  obtain r where r: "get_ip_info E ip = Inr r"
    using get_ip_info_total by blast
  have t: "(case get_ip_info_remote E ip 3 ''zh-CN'' of
              Inl e \<Rightarrow> AList.update ''ip'' (PStr ip) unified_template
            | Inr r \<Rightarrow> r) = AList.update ''ip'' (PStr ip) unified_template"
    using assms get_ip_info_remote_all_fail [of E ip 3 "''zh-CN''"] by auto
  have a: "list_all (\<lambda>k. map_of r k \<noteq> None) schema_keys"
    unfolding list_all_iff using get_ip_info_keys [OF r] by blast
  have b: "(case get_ip_info_local E ip of
                 Inr l \<Rightarrow> \<forall>k. map_of r k =
                               (if k = ''timezone'' \<or> k = ''isp'' then Some (PStr []) else map_of l k)
               | Inl e' \<Rightarrow> r = AList.update ''ip'' (PStr ip) unified_template)"
  proof (cases "get_ip_info_local E ip")
    case (Inl e')
    then have "get_ip_info E ip = regions_fallback (AList.update ''ip'' (PStr ip) unified_template)"
      unfolding get_ip_info_unfold t by (simp add: merge_unified_def)
    with r Inl show ?thesis by (simp add: regions_fallback_template)
  next
    case (Inr l)
    then have "regions_fallback (merge_unified (AList.update ''ip'' (PStr ip) unified_template) l) = Inr r"
      using r unfolding get_ip_info_unfold t by simp
    from regions_fallback_local_merge [OF Inr this] show ?thesis using Inr by simp
  qed
  from r a b show ?thesis by blast
qed

theorem remote_failure_is_contained_witness:
  "get_ip_info_remote env_remote_raises ''8.8.8.8'' 3 ''zh-CN'' = Inl TypeError
   \<and> get_ip_info_local env_remote_raises ''8.8.8.8'' =
       Inr [(''ip'', PStr ''8.8.8.8''), (''addr'', PStr ''8.8.8.0/24''), (''as_number'', PInt 15169),
            (''as_name'', PStr ''GOOGLE''), (''as_info'', PStr label_guge_yun),
            (''country_code'', PStr ''US''), (''country_name'', PStr ''United States''),
            (''registered_country_code'', PStr ''US''),
            (''registered_country_name'', PStr ''United States''),
            (''latitude'', PFloat 37.751), (''longitude'', PFloat (- 97.822)),
            (''province'', PStr ''California''), (''city'', PStr ''Mountain View''),
            (''regions'', PStr ''California,Mountain View''), (''type'', PStr [])]
   \<and> (\<exists>r. get_ip_info env_remote_raises ''8.8.8.8'' = Inr r
          \<and> list_all (\<lambda>k. map_of r k \<noteq> None) schema_keys
          \<and> map_of r ''city'' = Some (PStr ''Mountain View'')
          \<and> map_of r ''isp'' = Some (PStr []))"
proof -
  have e: "get_ip_info_remote env_remote_raises ''8.8.8.8'' 3 ''zh-CN'' = Inl TypeError"
    by code_simp
  have l: "get_ip_info_local env_remote_raises ''8.8.8.8'' =
       Inr [(''ip'', PStr ''8.8.8.8''), (''addr'', PStr ''8.8.8.0/24''), (''as_number'', PInt 15169),
            (''as_name'', PStr ''GOOGLE''), (''as_info'', PStr label_guge_yun),
            (''country_code'', PStr ''US''), (''country_name'', PStr ''United States''),
            (''registered_country_code'', PStr ''US''),
            (''registered_country_name'', PStr ''United States''),
            (''latitude'', PFloat 37.751), (''longitude'', PFloat (- 97.822)),
            (''province'', PStr ''California''), (''city'', PStr ''Mountain View''),
            (''regions'', PStr ''California,Mountain View''), (''type'', PStr [])]"
    by code_simp
  from e have "get_ip_info_remote env_remote_raises ''8.8.8.8'' 3 ''zh-CN'' = Inl TypeError
      \<or> (\<forall>src. attempt env_remote_raises src = None)" by (rule disjI1)
  from remote_failure_is_contained [OF this] obtain r where
    r: "get_ip_info env_remote_raises ''8.8.8.8'' = Inr r"
       "list_all (\<lambda>k. map_of r k \<noteq> None) schema_keys"
       "(case get_ip_info_local env_remote_raises ''8.8.8.8'' of
                 Inr l \<Rightarrow> \<forall>k. map_of r k =
                               (if k = ''timezone'' \<or> k = ''isp'' then Some (PStr []) else map_of l k)
               | Inl e' \<Rightarrow> r = AList.update ''ip'' (PStr ''8.8.8.8'') unified_template)"
    by blast
  from r(3) have "map_of r ''city'' = Some (PStr ''Mountain View'')" "map_of r ''isp'' = Some (PStr [])"
    unfolding l by simp_all
  with e l r(1,2) show ?thesis by blast
qed

section \<open>The fields that only remote sources fill\<close>

lemma merge_unified_stays_empty:
  assumes "\<forall>v. (k, v) \<in> set inc \<longrightarrow> v = PStr []" and "map_of base k = Some (PStr [])"
  shows "map_of (merge_unified base inc) k = Some (PStr [])"
proof -
  have "\<And>base. \<forall>v. (k, v) \<in> set inc \<longrightarrow> v = PStr [] \<Longrightarrow> map_of base k = Some (PStr []) \<Longrightarrow>
          map_of (foldl merge_step base inc) k = Some (PStr [])"
  proof (induction inc)
    case Nil
    then show ?case by simp
  next
    case (Cons kv inc)
    have "map_of (merge_step base kv) k = Some (PStr [])"
    proof (cases "k = fst kv")
      case True
      then have "(k, snd kv) \<in> set (kv # inc)" by (cases kv) simp
      with Cons.prems(1) have "snd kv = PStr []" by blast
      then show ?thesis using Cons.prems(2) by (simp add: map_of_merge_step)
    next
      case False
      then show ?thesis using Cons.prems(2) by (simp add: map_of_merge_step)
    qed
    moreover have "\<forall>v. (k, v) \<in> set inc \<longrightarrow> v = PStr []" using Cons.prems(1) by simp
    ultimately have "map_of (foldl merge_step (merge_step base kv) inc) k = Some (PStr [])"
      by (rule Cons.IH [rotated])
    then show ?case by simp
  qed
  with assms show ?thesis by (simp add: merge_unified_def)
qed

lemma remote_loop_stays_empty:
  assumes "\<forall>src partial v. att src = Some partial \<and> (k, v) \<in> set partial \<longrightarrow> v = PStr []"
    and "map_of unified k = Some (PStr [])"
  shows "map_of (remote_loop att n tried unified sources) k = Some (PStr [])"
  using assms(2)
proof (induction sources arbitrary: tried unified)
  case Nil
  then show ?case by simp
next
  case (Cons src sources)
  show ?case
  proof (cases "att src")
    case None
    then show ?thesis using Cons by simp
  next
    case (Some partial)
    with assms(1) have "\<forall>v. (k, v) \<in> set partial \<longrightarrow> v = PStr []" by blast
    then have "map_of (merge_unified unified partial) k = Some (PStr [])"
      using Cons.prems by (rule merge_unified_stays_empty)
    then have "map_of (remote_loop att n (tried + 1) (merge_unified unified partial) sources) k
                 = Some (PStr [])"
      by (rule Cons.IH)
    then show ?thesis using Some Cons.prems by simp
  qed
qed

lemma local_has_no_timezone_isp:
  assumes "get_ip_info_local E ip = Inr l" and "k = ''timezone'' \<or> k = ''isp''"
  shows "map_of l k = None"
proof -
  from get_ip_info_local_shape [OF assms(1)] obtain info where "l = build_uniform_result info"
    by blast
  then show ?thesis using build_uniform_result_keys [of info k] assms(2) by auto
qed

lemma get_ip_info_remote_field:
  assumes k: "k = ''timezone'' \<or> k = ''isp''" and r: "get_ip_info E ip = Inr r"
  shows "map_of r k = map_of (case get_ip_info_remote E ip 3 ''zh-CN'' of
                                Inl e \<Rightarrow> AList.update ''ip'' (PStr ip) unified_template
                              | Inr r' \<Rightarrow> r') k"
proof -
  let ?R = "(case get_ip_info_remote E ip 3 ''zh-CN'' of
               Inl e \<Rightarrow> AList.update ''ip'' (PStr ip) unified_template
             | Inr r' \<Rightarrow> r')"
  let ?L = "(case get_ip_info_local E ip of Inl e \<Rightarrow> [] | Inr l \<Rightarrow> l)"
  have "map_of ?L k = None"
    using local_has_no_timezone_isp [OF _ k] by (cases "get_ip_info_local E ip") simp_all
  then have "map_of (merge_unified ?R ?L) k = map_of ?R k"
    by (simp add: map_of_merge_unified [OF local_or_empty_distinct])
  moreover from k have "k \<noteq> ''regions''" by auto
  ultimately show ?thesis
    using r unfolding get_ip_info_unfold by (simp add: regions_fallback_other)
qed

text \<open>
  Claim C10. For every input, the record that the local pipeline returns has no
  \<^verbatim>\<open>timezone\<close> and no \<^verbatim>\<open>isp\<close> key. Consequently each of the two fields of the record that
  \<^verbatim>\<open>get_ip_info\<close> returns is the value the remote pass left there (that of the template
  when the remote pass raised), and it is the empty string whenever no remote source
  answered with anything but the empty string for it.
\<close>

theorem timezone_isp_only_from_remote:
  assumes "k = ''timezone'' \<or> k = ''isp''"
  shows "(\<forall>l. get_ip_info_local E ip = Inr l \<longrightarrow> map_of l k = None)
         \<and> (\<exists>r. get_ip_info E ip = Inr r
               \<and> map_of r k = map_of (case get_ip_info_remote E ip 3 ''zh-CN'' of
                                        Inl e \<Rightarrow> AList.update ''ip'' (PStr ip) unified_template
                                      | Inr r' \<Rightarrow> r') k
               \<and> ((\<forall>src partial v. attempt E src = Some partial \<and> (k, v) \<in> set partial \<longrightarrow> v = PStr [])
                    \<longrightarrow> map_of r k = Some (PStr [])))"
proof -
  let ?T = "AList.update ''ip'' (PStr ip) unified_template"
  have a: "\<forall>l. get_ip_info_local E ip = Inr l \<longrightarrow> map_of l k = None"
  proof (intro allI impI)
    fix l
    assume "get_ip_info_local E ip = Inr l"
    then show "map_of l k = None" using assms by (rule local_has_no_timezone_isp)
  qed
  obtain r where r: "get_ip_info E ip = Inr r"
    using get_ip_info_total by blast
  note b = get_ip_info_remote_field [OF assms r]
  have kk: "k \<in> set schema_keys" "k \<noteq> ''ip''" "k \<noteq> ''regions''"
    using assms by (auto simp: schema_keys_def)
  have T: "map_of ?T k = Some (PStr [])" using kk(1,2) by (rule template_value)
  have c: "(\<forall>src partial v. attempt E src = Some partial \<and> (k, v) \<in> set partial \<longrightarrow> v = PStr [])
             \<longrightarrow> map_of r k = Some (PStr [])"
  proof
    assume h: "\<forall>src partial v. attempt E src = Some partial \<and> (k, v) \<in> set partial \<longrightarrow> v = PStr []"
    show "map_of r k = Some (PStr [])"
    proof (cases "get_ip_info_remote E ip 3 ''zh-CN''")
      case (Inl e)
      then show ?thesis using b T by simp
    next
      case (Inr r')
      let ?u = "remote_loop (attempt E) 3 0 ?T (shuffle E (sources_for_ip ip ''zh-CN''))"
      have "map_of ?u k = Some (PStr [])" using h T by (rule remote_loop_stays_empty)
      moreover have "regions_fallback ?u = Inr r'" using Inr by (simp add: get_ip_info_remote_def)
      ultimately have "map_of r' k = Some (PStr [])" using kk(3) by (simp add: regions_fallback_other)
      then show ?thesis using b Inr by simp
    qed
  qed
  have "\<exists>r. get_ip_info E ip = Inr r
               \<and> map_of r k = map_of (case get_ip_info_remote E ip 3 ''zh-CN'' of
                                        Inl e \<Rightarrow> AList.update ''ip'' (PStr ip) unified_template
                                      | Inr r' \<Rightarrow> r') k
               \<and> ((\<forall>src partial v. attempt E src = Some partial \<and> (k, v) \<in> set partial \<longrightarrow> v = PStr [])
                    \<longrightarrow> map_of r k = Some (PStr []))"
    using r b c by (intro exI [of _ r] conjI)
  with a show ?thesis by (rule conjI)
qed

theorem timezone_isp_only_from_remote_witness:
  "(''isp'' = ''timezone'' \<or> ''isp'' = ''isp'')
   \<and> get_ip_info_local env_remote_raises ''8.8.8.8'' =
       Inr [(''ip'', PStr ''8.8.8.8''), (''addr'', PStr ''8.8.8.0/24''), (''as_number'', PInt 15169),
            (''as_name'', PStr ''GOOGLE''), (''as_info'', PStr label_guge_yun),
            (''country_code'', PStr ''US''), (''country_name'', PStr ''United States''),
            (''registered_country_code'', PStr ''US''),
            (''registered_country_name'', PStr ''United States''),
            (''latitude'', PFloat 37.751), (''longitude'', PFloat (- 97.822)),
            (''province'', PStr ''California''), (''city'', PStr ''Mountain View''),
            (''regions'', PStr ''California,Mountain View''), (''type'', PStr [])]
   \<and> (\<exists>r. get_ip_info env_remote_raises ''8.8.8.8'' = Inr r \<and> map_of r ''isp'' = Some (PStr []))"
proof -
  have k: "''isp'' = ''timezone'' \<or> ''isp'' = ''isp''" by simp
  have l: "get_ip_info_local env_remote_raises ''8.8.8.8'' =
       Inr [(''ip'', PStr ''8.8.8.8''), (''addr'', PStr ''8.8.8.0/24''), (''as_number'', PInt 15169),
            (''as_name'', PStr ''GOOGLE''), (''as_info'', PStr label_guge_yun),
            (''country_code'', PStr ''US''), (''country_name'', PStr ''United States''),
            (''registered_country_code'', PStr ''US''),
            (''registered_country_name'', PStr ''United States''),
            (''latitude'', PFloat 37.751), (''longitude'', PFloat (- 97.822)),
            (''province'', PStr ''California''), (''city'', PStr ''Mountain View''),
            (''regions'', PStr ''California,Mountain View''), (''type'', PStr [])]"
    by code_simp
  have h: "\<forall>src partial v. attempt env_remote_raises src = Some partial \<and> (''isp'', v) \<in> set partial
          \<longrightarrow> v = PStr []"
    by (auto simp: env_remote_raises_def unified_template_def schema_keys_def)
  from timezone_isp_only_from_remote [OF k, of env_remote_raises "''8.8.8.8''"]
  obtain r where r: "get_ip_info env_remote_raises ''8.8.8.8'' = Inr r"
    and i: "(\<forall>src partial v. attempt env_remote_raises src = Some partial \<and> (''isp'', v) \<in> set partial
               \<longrightarrow> v = PStr []) \<longrightarrow> map_of r ''isp'' = Some (PStr [])"
    by (elim conjE exE)
  from i h have "map_of r ''isp'' = Some (PStr [])" by (rule mp)
  with r have "\<exists>r. get_ip_info env_remote_raises ''8.8.8.8'' = Inr r \<and> map_of r ''isp'' = Some (PStr [])"
    by (intro exI [of _ r] conjI)
  with k l show ?thesis by (intro conjI)
qed

section \<open>Operator labels of the local pipeline\<close>

lemma asn_map_labels_nonempty: "list_all (\<lambda>kv. snd kv \<noteq> []) asn_map"
  by (simp add: asn_map_def)

lemma get_as_info_nonempty: "get_as_info n = Some l \<Longrightarrow> l \<noteq> []"
proof -
  assume "get_as_info n = Some l"
  then have "(n, l) \<in> set asn_map" unfolding get_as_info_def by (rule map_of_SomeD)
  with asn_map_labels_nonempty show ?thesis by (auto simp: list_all_iff)
qed

lemma maxmind_as_info:
  assumes "maxmind_as a = Inr d"
    and "autonomous_system_number a = Some n" and "autonomous_system_organization a = Some org"
  shows "as_info d = (case get_as_info n of
                        Some l \<Rightarrow> Some l
                      | None \<Rightarrow> if str_truthy (derive_isp_from_org org)
                                 then derive_isp_from_org org else None)"
proof (cases "get_as_info n")
  case None
  then show ?thesis using assms by (auto simp: maxmind_as_def str_or_def str_truthy_def)
next
  case (Some l)
  then have "l \<noteq> []" by (rule get_as_info_nonempty)
  then show ?thesis using assms Some by (auto simp: maxmind_as_def str_or_def str_truthy_def)
qed

lemma maxmind_province_city_as [simp]: "i_as (maxmind_province_city ret rg) = i_as ret"
  by (simp add: maxmind_province_city_def Let_def)

lemma maxmind_geo_as: "maxmind_geo ret c = Inr ret' \<Longrightarrow> i_as ret' = i_as ret"
  by (auto simp: maxmind_geo_def Let_def split: option.splits sum.splits)

lemma get_maxmind_as:
  assumes "get_maxmind E ip = Inr ret" and "asn_reader E ip = Inr (Some a)"
  shows "\<exists>d. maxmind_as a = Inr d \<and> i_as ret = Some d"
  using assms
  by (auto simp: get_maxmind_def split: option.splits sum.splits prod.splits dest!: maxmind_geo_as)

text \<open>
  Claim C7. For every ASN record that the local pipeline finds, if the number has an entry
  in \<^verbatim>\<open>asn_map\<close>, the operator label that \<^verbatim>\<open>get_maxmind\<close> attaches as \<^verbatim>\<open>as.info\<close> is that
  entry, whatever \<^verbatim>\<open>derive_isp_from_org\<close> says about the organization name; the result of
  \<^verbatim>\<open>derive_isp_from_org\<close> is attached only when the table has no entry for the number.
\<close>

theorem table_label_takes_precedence:
  assumes "get_maxmind E ip = Inr ret" and "asn_reader E ip = Inr (Some a)"
    and "autonomous_system_number a = Some n" and "autonomous_system_organization a = Some org"
  shows "map_option as_info (i_as ret) =
           Some (case get_as_info n of
                   Some l \<Rightarrow> Some l
                 | None \<Rightarrow> if str_truthy (derive_isp_from_org org)
                            then derive_isp_from_org org else None)"
proof -
  from get_maxmind_as [OF assms(1,2)] obtain d where d: "maxmind_as a = Inr d" "i_as ret = Some d"
    by blast
  from maxmind_as_info [OF d(1) assms(3,4)] d(2) show ?thesis by simp
qed

theorem table_label_takes_precedence_witness:
  "get_maxmind env_alibaba ''47.88.0.1'' =
     Inr \<lparr>i_ip = ''47.88.0.1'',
          i_as = Some \<lparr>as_number = Some 45102,
                       as_name = Some ''Alibaba US Technology Co., Ltd.'',
                       as_info = Some label_ali_yun_guoji\<rparr>,
          i_addr = Some ''47.88.0.0/16'', i_location = None, i_country = None,
          i_registered_country = None, i_regions = None, i_province = None, i_city = None,
          i_type = None\<rparr>
   \<and> asn_reader env_alibaba ''47.88.0.1'' = Inr (Some alibaba_asn)
   \<and> autonomous_system_number alibaba_asn = Some 45102
   \<and> autonomous_system_organization alibaba_asn = Some ''Alibaba US Technology Co., Ltd.''
   \<and> derive_isp_from_org ''Alibaba US Technology Co., Ltd.'' = Some label_ali_yun
   \<and> get_as_info 45102 = Some label_ali_yun_guoji
   \<and> map_option as_info (i_as
         \<lparr>i_ip = ''47.88.0.1'',
          i_as = Some \<lparr>as_number = Some 45102,
                       as_name = Some ''Alibaba US Technology Co., Ltd.'',
                       as_info = Some label_ali_yun_guoji\<rparr>,
          i_addr = Some ''47.88.0.0/16'', i_location = None, i_country = None,
          i_registered_country = None, i_regions = None, i_province = None, i_city = None,
          i_type = None\<rparr>) = Some (Some label_ali_yun_guoji)"
proof -
  have g: "get_maxmind env_alibaba ''47.88.0.1'' =
     Inr \<lparr>i_ip = ''47.88.0.1'',
          i_as = Some \<lparr>as_number = Some 45102,
                       as_name = Some ''Alibaba US Technology Co., Ltd.'',
                       as_info = Some label_ali_yun_guoji\<rparr>,
          i_addr = Some ''47.88.0.0/16'', i_location = None, i_country = None,
          i_registered_country = None, i_regions = None, i_province = None, i_city = None,
          i_type = None\<rparr>"
    by code_simp
  have r: "asn_reader env_alibaba ''47.88.0.1'' = Inr (Some alibaba_asn)"
    by (simp add: env_alibaba_def)
  have n: "autonomous_system_number alibaba_asn = Some 45102"
    by (simp add: alibaba_asn_def)
  have org: "autonomous_system_organization alibaba_asn = Some ''Alibaba US Technology Co., Ltd.''"
    by (simp add: alibaba_asn_def)
  have h: "derive_isp_from_org ''Alibaba US Technology Co., Ltd.'' = Some label_ali_yun"
    by code_simp
  have t: "get_as_info 45102 = Some label_ali_yun_guoji"
    by code_simp
  from table_label_takes_precedence [OF g r n org] t g r n org h show ?thesis by simp
qed

section \<open>The region list of the local pipeline\<close>

lemma maxmind_province_city_fields:
  assumes "i_province ret = None" and "i_city ret = None"
  shows "i_regions (maxmind_province_city ret rg) = Some (de_duplicate rg)"
    and "i_province (maxmind_province_city ret rg) =
           (if de_duplicate rg = [] then None else Some (hd (de_duplicate rg)))"
    and "i_city (maxmind_province_city ret rg) =
           (if length (de_duplicate rg) > 1 then Some (last (de_duplicate rg)) else None)"
proof -
  have e: "de_duplicate [] = []" by (simp add: de_duplicate_def)
  show "i_regions (maxmind_province_city ret rg) = Some (de_duplicate rg)"
    using e by (cases "rg = []") (simp_all add: maxmind_province_city_def Let_def)
  show "i_province (maxmind_province_city ret rg) =
           (if de_duplicate rg = [] then None else Some (hd (de_duplicate rg)))"
    using e assms by (cases "rg = []") (simp_all add: maxmind_province_city_def Let_def)
  show "i_city (maxmind_province_city ret rg) =
           (if length (de_duplicate rg) > 1 then Some (last (de_duplicate rg)) else None)"
    using e assms by (cases "rg = []") (auto simp: maxmind_province_city_def Let_def)
qed

lemma maxmind_geo_form:
  assumes "maxmind_geo ret0 c = Inr ret" and "i_country ret0 = None"
  shows "\<exists>ret3. ret = maxmind_province_city ret3
                  (maxmind_regions c (case db_country c of None \<Rightarrow> [] | Some pc \<Rightarrow> get_country pc))
            \<and> i_province ret3 = i_province ret0 \<and> i_city ret3 = i_city ret0"
proof -
  define ret1 where "ret1 = (case db_location c of
                    None \<Rightarrow> ret0
                  | Some l \<Rightarrow> ret0\<lparr>i_location :=
                                Some \<lparr>latitude = latitude l, longitude = longitude l\<rparr>\<rparr>)"
  have r1: "i_province ret1 = i_province ret0" "i_city ret1 = i_city ret0" "i_country ret1 = None"
    using assms(2) by (simp_all add: ret1_def split: option.splits)
  define ret2 where "ret2 = (case db_country c of
                 None \<Rightarrow> ret1
               | Some pc \<Rightarrow> ret1\<lparr>i_country := Some \<lparr>cd_code = the (iso_code pc), cd_name = get_country pc\<rparr>\<rparr>)"
  have r2: "i_province ret2 = i_province ret0" "i_city ret2 = i_city ret0"
    "(case i_country ret2 of None \<Rightarrow> [] | Some cd \<Rightarrow> cd_name cd) =
       (case db_country c of None \<Rightarrow> [] | Some pc \<Rightarrow> get_country pc)"
    using r1 by (simp_all add: ret2_def split: option.splits)
  have s2: "(case db_country c of
                 None \<Rightarrow> Inr ret1
               | Some c \<Rightarrow> (case maxmind_country c of
                              Inl e \<Rightarrow> Inl e
                            | Inr cd \<Rightarrow> Inr (ret1\<lparr>i_country := Some cd\<rparr>))) = Inr ret2"
    using assms(1) unfolding maxmind_geo_def Let_def ret1_def [symmetric] ret2_def
    by (auto simp: maxmind_country_def split: option.splits sum.splits)
  define ret3 where "ret3 = (case db_registered_country c of
                 None \<Rightarrow> ret2
               | Some pc \<Rightarrow> ret2\<lparr>i_registered_country :=
                               Some \<lparr>cd_code = the (iso_code pc), cd_name = get_country pc\<rparr>\<rparr>)"
  have r3: "i_province ret3 = i_province ret0" "i_city ret3 = i_city ret0"
    "i_country ret3 = i_country ret2"
    using r2 by (simp_all add: ret3_def split: option.splits)
  have s3: "(case db_registered_country c of
                      None \<Rightarrow> Inr ret2
                    | Some c \<Rightarrow> (case maxmind_country c of
                                   Inl e \<Rightarrow> Inl e
                                 | Inr cd \<Rightarrow> Inr (ret2\<lparr>i_registered_country := Some cd\<rparr>))) = Inr ret3"
    using assms(1) unfolding maxmind_geo_def Let_def ret1_def [symmetric] s2 ret3_def
    by (auto simp: maxmind_country_def split: option.splits sum.splits)
  have "ret = maxmind_province_city ret3
                (maxmind_regions c (case i_country ret3 of None \<Rightarrow> [] | Some cd \<Rightarrow> cd_name cd))"
    using assms(1) unfolding maxmind_geo_def Let_def ret1_def [symmetric] s2 by (simp add: s3)
  then show ?thesis using r3 r2 by auto
qed

lemma get_maxmind_geo:
  assumes "get_maxmind E ip = Inr ret" and "city_reader E ip = Inr (Some c, p)"
  shows "\<exists>ret0. maxmind_geo ret0 c = Inr ret \<and> i_province ret0 = None \<and> i_city ret0 = None
               \<and> i_country ret0 = None"
  using assms
  by (auto simp: get_maxmind_def empty_info_def split: option.splits sum.splits prod.splits)

text \<open>
  Claim C5. In \<^verbatim>\<open>get_maxmind\<close>, for a city record that has a city entry, the name of the
  city is appended to the list of subdivision names exactly when (the list is empty or
  the name is not a substring of the last name in the list) and the name is not a
  substring of the resolved country name (the empty string when the record has no
  country). \<^verbatim>\<open>regions\<close> is the de-duplication of the resulting list; its first element is
  the province, and its last element is the city only when it has more than one element.
\<close>

theorem region_list_construction:
  assumes "get_maxmind E ip = Inr ret" and "city_reader E ip = Inr (Some c, p)"
    and "db_city c = Some cty"
  shows "i_regions ret =
           Some (de_duplicate
             (if (map get_des (case db_subdivisions c of None \<Rightarrow> [] | Some s \<Rightarrow> s) = []
                  \<or> \<not> sublist (get_des cty)
                         (last (map get_des (case db_subdivisions c of None \<Rightarrow> [] | Some s \<Rightarrow> s))))
                 \<and> \<not> sublist (get_des cty)
                        (case db_country c of None \<Rightarrow> [] | Some pc \<Rightarrow> get_country pc)
              then map get_des (case db_subdivisions c of None \<Rightarrow> [] | Some s \<Rightarrow> s) @ [get_des cty]
              else map get_des (case db_subdivisions c of None \<Rightarrow> [] | Some s \<Rightarrow> s)))
         \<and> i_province ret =
             (case i_regions ret of
                None \<Rightarrow> None
              | Some rs \<Rightarrow> if rs = [] then None else Some (hd rs))
         \<and> i_city ret =
             (case i_regions ret of
                None \<Rightarrow> None
              | Some rs \<Rightarrow> if length rs > 1 then Some (last rs) else None)"
proof -
  from get_maxmind_geo [OF assms(1,2)] obtain ret0 where
    g: "maxmind_geo ret0 c = Inr ret" and z: "i_province ret0 = None" "i_city ret0 = None"
       "i_country ret0 = None"
    by blast
  from maxmind_geo_form [OF g z(3)] obtain ret3 where
    r: "ret = maxmind_province_city ret3
              (maxmind_regions c (case db_country c of None \<Rightarrow> [] | Some pc \<Rightarrow> get_country pc))"
    and p: "i_province ret3 = None" "i_city ret3 = None"
    using z by auto
  have rg: "maxmind_regions c (case db_country c of None \<Rightarrow> [] | Some pc \<Rightarrow> get_country pc) =
             (if (map get_des (case db_subdivisions c of None \<Rightarrow> [] | Some s \<Rightarrow> s) = []
                  \<or> \<not> sublist (get_des cty)
                         (last (map get_des (case db_subdivisions c of None \<Rightarrow> [] | Some s \<Rightarrow> s))))
                 \<and> \<not> sublist (get_des cty)
                        (case db_country c of None \<Rightarrow> [] | Some pc \<Rightarrow> get_country pc)
              then map get_des (case db_subdivisions c of None \<Rightarrow> [] | Some s \<Rightarrow> s) @ [get_des cty]
              else map get_des (case db_subdivisions c of None \<Rightarrow> [] | Some s \<Rightarrow> s))"
    using assms(3) by (simp add: maxmind_regions_def Let_def)
  show ?thesis
    unfolding r maxmind_province_city_fields [OF p] rg by simp
qed

theorem region_list_construction_witness:
  "get_maxmind env_remote_raises ''8.8.8.8'' =
     Inr \<lparr>i_ip = ''8.8.8.8'',
          i_as = Some \<lparr>as_number = Some 15169, as_name = Some ''GOOGLE'',
                       as_info = Some label_guge_yun\<rparr>,
          i_addr = Some ''8.8.8.0/24'',
          i_location = Some \<lparr>latitude = Some 37.751, longitude = Some (- 97.822)\<rparr>,
          i_country = Some \<lparr>cd_code = ''US'', cd_name = ''United States''\<rparr>,
          i_registered_country = Some \<lparr>cd_code = ''US'', cd_name = ''United States''\<rparr>,
          i_regions = Some [''California'', ''Mountain View''],
          i_province = Some ''California'', i_city = Some ''Mountain View'', i_type = None\<rparr>
   \<and> city_reader env_remote_raises ''8.8.8.8'' = Inr (Some us_city, 24)
   \<and> db_city us_city = Some \<lparr>iso_code = None, names = Some [(''en'', ''Mountain View'')]\<rparr>
   \<and> Some [''California'', ''Mountain View''] =
       Some (de_duplicate
             (if (map get_des (case db_subdivisions us_city of None \<Rightarrow> [] | Some s \<Rightarrow> s) = []
                  \<or> \<not> sublist (get_des \<lparr>iso_code = None, names = Some [(''en'', ''Mountain View'')]\<rparr>)
                         (last (map get_des (case db_subdivisions us_city of None \<Rightarrow> [] | Some s \<Rightarrow> s))))
                 \<and> \<not> sublist (get_des \<lparr>iso_code = None, names = Some [(''en'', ''Mountain View'')]\<rparr>)
                        (case db_country us_city of None \<Rightarrow> [] | Some pc \<Rightarrow> get_country pc)
              then map get_des (case db_subdivisions us_city of None \<Rightarrow> [] | Some s \<Rightarrow> s)
                     @ [get_des \<lparr>iso_code = None, names = Some [(''en'', ''Mountain View'')]\<rparr>]
              else map get_des (case db_subdivisions us_city of None \<Rightarrow> [] | Some s \<Rightarrow> s)))"
proof -
  have g: "get_maxmind env_remote_raises ''8.8.8.8'' =
     Inr \<lparr>i_ip = ''8.8.8.8'',
          i_as = Some \<lparr>as_number = Some 15169, as_name = Some ''GOOGLE'',
                       as_info = Some label_guge_yun\<rparr>,
          i_addr = Some ''8.8.8.0/24'',
          i_location = Some \<lparr>latitude = Some 37.751, longitude = Some (- 97.822)\<rparr>,
          i_country = Some \<lparr>cd_code = ''US'', cd_name = ''United States''\<rparr>,
          i_registered_country = Some \<lparr>cd_code = ''US'', cd_name = ''United States''\<rparr>,
          i_regions = Some [''California'', ''Mountain View''],
          i_province = Some ''California'', i_city = Some ''Mountain View'', i_type = None\<rparr>"
    by code_simp
  have c: "city_reader env_remote_raises ''8.8.8.8'' = Inr (Some us_city, 24)"
    by (simp add: env_remote_raises_def)
  have d: "db_city us_city = Some \<lparr>iso_code = None, names = Some [(''en'', ''Mountain View'')]\<rparr>"
    by (simp add: us_city_def)
  from region_list_construction [OF g c d] g c d show ?thesis by simp
qed

section \<open>The jurisdiction override and the operator label\<close>

lemma cn_regions_as [simp]: "i_as (cn_regions info rg) = i_as info"
  by (simp add: cn_regions_def Let_def)

lemma cn_as_label:
  "map_option as_info (i_as (cn_as info isp)) =
     Some (if str_truthy isp then isp else (case i_as info of None \<Rightarrow> None | Some a \<Rightarrow> as_info a))"
  by (cases "i_as info") (simp_all add: cn_as_def Let_def)

text \<open>
  Claim C4, as amended. In \<^verbatim>\<open>get_cn\<close>, when the override database returns a record that
  carries a non-empty ISP label, \<^verbatim>\<open>as.info\<close> becomes that label, whether or not the ASN
  step had attached an operator label; when the record carries no ISP label (or an
  empty one), \<^verbatim>\<open>as.info\<close> stays as the ASN step left it. Without an override record
  \<^verbatim>\<open>get_cn\<close> changes nothing.
\<close>

theorem override_isp_label_wins:
  assumes "get_cn E ip info = Inr info'"
  shows "(case cn_reader E ip of
            Inr (Some cn_info, prefix_len) \<Rightarrow>
              map_option as_info (i_as info') =
                Some (if str_truthy (cn_isp cn_info) then cn_isp cn_info
                      else (case i_as info of None \<Rightarrow> None | Some a \<Rightarrow> as_info a))
          | _ \<Rightarrow> info' = info)"
proof (cases "cn_reader E ip")
  case (Inl e)
  then show ?thesis using assms by (simp add: get_cn_def)
next
  case (Inr x)
  obtain c p where x: "x = (c, p)" by (cases x)
  show ?thesis
  proof (cases c)
    case None
    then show ?thesis using assms Inr x by (simp add: get_cn_def)
  next
    case (Some cn_info)
    then obtain a where
      "info' = cn_type (cn_as (cn_regions (info\<lparr>i_addr := Some a\<rparr>)
                 (de_duplicate [get_or_empty (cn_province cn_info), get_or_empty (cn_city cn_info),
                                get_or_empty (cn_districts cn_info)])) (cn_isp cn_info))
                 (cn_net cn_info)"
      using assms Inr x by (auto simp: get_cn_def split: sum.splits)
    then have "map_option as_info (i_as info') =
                Some (if str_truthy (cn_isp cn_info) then cn_isp cn_info
                      else (case i_as info of None \<Rightarrow> None | Some a \<Rightarrow> as_info a))"
      by (simp add: cn_as_label)
    then show ?thesis using Inr x Some by simp
  qed
qed

text \<open>
  The claim as the specification states it fails: the ASN step labels AS4134 from the
  table, and the override step replaces that label by the ISP label of its record.
\<close>

theorem override_replaces_table_label_counterexample:
  "get_maxmind env_cn ''1.2.4.8'' =
     Inr \<lparr>i_ip = ''1.2.4.8'',
          i_as = Some \<lparr>as_number = Some 4134, as_name = Some ''Chinanet'',
                       as_info = Some label_zhongguo_dianxin\<rparr>,
          i_addr = Some ''1.2.4.0/22'', i_location = None,
          i_country = Some \<lparr>cd_code = ''CN'', cd_name = ''China''\<rparr>,
          i_registered_country = Some \<lparr>cd_code = ''CN'', cd_name = ''China''\<rparr>,
          i_regions = Some [''Beijing''], i_province = Some ''Beijing'', i_city = None,
          i_type = None\<rparr>
   \<and> get_cn env_cn ''1.2.4.8''
       \<lparr>i_ip = ''1.2.4.8'',
          i_as = Some \<lparr>as_number = Some 4134, as_name = Some ''Chinanet'',
                       as_info = Some label_zhongguo_dianxin\<rparr>,
          i_addr = Some ''1.2.4.0/22'', i_location = None,
          i_country = Some \<lparr>cd_code = ''CN'', cd_name = ''China''\<rparr>,
          i_registered_country = Some \<lparr>cd_code = ''CN'', cd_name = ''China''\<rparr>,
          i_regions = Some [''Beijing''], i_province = Some ''Beijing'', i_city = None,
          i_type = None\<rparr> =
     Inr \<lparr>i_ip = ''1.2.4.8'',
          i_as = Some \<lparr>as_number = Some 4134, as_name = Some ''Chinanet'',
                       as_info = Some ''China Telecom Beijing''\<rparr>,
          i_addr = Some ''1.2.4.0/24'', i_location = None,
          i_country = Some \<lparr>cd_code = ''CN'', cd_name = ''China''\<rparr>,
          i_registered_country = Some \<lparr>cd_code = ''CN'', cd_name = ''China''\<rparr>,
          i_regions = Some [''Beijing'', ''Haidian''], i_province = Some ''Beijing'',
          i_city = Some ''Haidian'', i_type = Some ''broadband''\<rparr>
   \<and> get_ip_info_local env_cn ''1.2.4.8'' =
       Inr [(''ip'', PStr ''1.2.4.8''), (''addr'', PStr ''1.2.4.0/24''), (''as_number'', PInt 4134),
            (''as_name'', PStr ''Chinanet''), (''as_info'', PStr ''China Telecom Beijing''),
            (''country_code'', PStr ''CN''), (''country_name'', PStr ''China''),
            (''registered_country_code'', PStr ''CN''), (''registered_country_name'', PStr ''China''),
            (''latitude'', PStr []), (''longitude'', PStr []), (''province'', PStr ''Beijing''),
            (''city'', PStr ''Haidian''), (''regions'', PStr ''Beijing,Haidian''),
            (''type'', PStr ''broadband'')]"
  by code_simp

theorem override_isp_label_wins_witness:
  "get_cn env_cn ''1.2.4.8''
       \<lparr>i_ip = ''1.2.4.8'',
          i_as = Some \<lparr>as_number = Some 4134, as_name = Some ''Chinanet'',
                       as_info = Some label_zhongguo_dianxin\<rparr>,
          i_addr = Some ''1.2.4.0/22'', i_location = None,
          i_country = Some \<lparr>cd_code = ''CN'', cd_name = ''China''\<rparr>,
          i_registered_country = Some \<lparr>cd_code = ''CN'', cd_name = ''China''\<rparr>,
          i_regions = Some [''Beijing''], i_province = Some ''Beijing'', i_city = None,
          i_type = None\<rparr> =
     Inr \<lparr>i_ip = ''1.2.4.8'',
          i_as = Some \<lparr>as_number = Some 4134, as_name = Some ''Chinanet'',
                       as_info = Some ''China Telecom Beijing''\<rparr>,
          i_addr = Some ''1.2.4.0/24'', i_location = None,
          i_country = Some \<lparr>cd_code = ''CN'', cd_name = ''China''\<rparr>,
          i_registered_country = Some \<lparr>cd_code = ''CN'', cd_name = ''China''\<rparr>,
          i_regions = Some [''Beijing'', ''Haidian''], i_province = Some ''Beijing'',
          i_city = Some ''Haidian'', i_type = Some ''broadband''\<rparr>
   \<and> cn_reader env_cn ''1.2.4.8'' = Inr (Some cn_override, 24)
   \<and> cn_isp cn_override = Some ''China Telecom Beijing''
   \<and> map_option as_info (i_as
        \<lparr>i_ip = ''1.2.4.8'',
          i_as = Some \<lparr>as_number = Some 4134, as_name = Some ''Chinanet'',
                       as_info = Some ''China Telecom Beijing''\<rparr>,
          i_addr = Some ''1.2.4.0/24'', i_location = None,
          i_country = Some \<lparr>cd_code = ''CN'', cd_name = ''China''\<rparr>,
          i_registered_country = Some \<lparr>cd_code = ''CN'', cd_name = ''China''\<rparr>,
          i_regions = Some [''Beijing'', ''Haidian''], i_province = Some ''Beijing'',
          i_city = Some ''Haidian'', i_type = Some ''broadband''\<rparr>) =
       Some (Some ''China Telecom Beijing'')"
proof -
  have g: "get_cn env_cn ''1.2.4.8''
       \<lparr>i_ip = ''1.2.4.8'',
          i_as = Some \<lparr>as_number = Some 4134, as_name = Some ''Chinanet'',
                       as_info = Some label_zhongguo_dianxin\<rparr>,
          i_addr = Some ''1.2.4.0/22'', i_location = None,
          i_country = Some \<lparr>cd_code = ''CN'', cd_name = ''China''\<rparr>,
          i_registered_country = Some \<lparr>cd_code = ''CN'', cd_name = ''China''\<rparr>,
          i_regions = Some [''Beijing''], i_province = Some ''Beijing'', i_city = None,
          i_type = None\<rparr> =
     Inr \<lparr>i_ip = ''1.2.4.8'',
          i_as = Some \<lparr>as_number = Some 4134, as_name = Some ''Chinanet'',
                       as_info = Some ''China Telecom Beijing''\<rparr>,
          i_addr = Some ''1.2.4.0/24'', i_location = None,
          i_country = Some \<lparr>cd_code = ''CN'', cd_name = ''China''\<rparr>,
          i_registered_country = Some \<lparr>cd_code = ''CN'', cd_name = ''China''\<rparr>,
          i_regions = Some [''Beijing'', ''Haidian''], i_province = Some ''Beijing'',
          i_city = Some ''Haidian'', i_type = Some ''broadband''\<rparr>"
    by code_simp
  have c: "cn_reader env_cn ''1.2.4.8'' = Inr (Some cn_override, 24)"
    by (simp add: env_cn_def)
  have i: "cn_isp cn_override = Some ''China Telecom Beijing''"
    by (simp add: cn_override_def)
  from override_isp_label_wins [OF g] g c i show ?thesis by simp
qed

section \<open>Network prefixes: parsing what was printed\<close>

subsection \<open>Splitting\<close>

lemma split_on_not_Nil [simp]: "split_on c s \<noteq> []"
  by (induction s) auto

lemma split_on_absent: "c \<notin> set s \<Longrightarrow> split_on c s = [s]"
  by (induction s) auto

lemma split_on_append: "c \<notin> set a \<Longrightarrow> split_on c (a @ c # s) = a # split_on c s"
  by (induction a) auto

lemma split_on_length_ge2: "length (split_on c s) \<ge> 2 \<Longrightarrow> c \<in> set s"
proof (rule ccontr)
  assume "length (split_on c s) \<ge> 2" and "c \<notin> set s"
  then show False by (simp add: split_on_absent)
qed

lemma split_on_chars: "x \<in> set s \<Longrightarrow> x = c \<or> (\<exists>p \<in> set (split_on c s). x \<in> set p)"
proof (induction s)
  case Nil
  then show ?case by simp
next
  case (Cons y s)
  show ?case
  proof (cases "y = c")
    case True
    then show ?thesis using Cons by auto
  next
    case False
    have hd_tl: "split_on c s = hd (split_on c s) # tl (split_on c s)" by simp
    show ?thesis
    proof (cases "x = y")
      case True
      then show ?thesis using False by simp
    next
      case ne: False
      with Cons have "x = c \<or> (\<exists>p \<in> set (split_on c s). x \<in> set p)" by simp
      then show ?thesis
      proof
        assume "x = c" then show ?thesis by simp
      next
        assume "\<exists>p \<in> set (split_on c s). x \<in> set p"
        then obtain p where p: "p \<in> set (split_on c s)" "x \<in> set p" by blast
        from p(1) hd_tl have "p = hd (split_on c s) \<or> p \<in> set (tl (split_on c s))"
          by (metis set_ConsD)
        then show ?thesis using p(2) False by auto
      qed
    qed
  qed
qed

subsection \<open>Decimal numerals\<close>

lemma int_of_digits_snoc:
  "int_of_digits b (s @ [c]) = int_of_digits b s * b + digit_val c"
  by (simp add: int_of_digits_def)

lemma small_digits_table:
  "list_all (\<lambda>k. ''0123456789abcdef'' ! k \<in> set DEC_DIGITS
                   \<and> digit_val (''0123456789abcdef'' ! k) = int k) [0 ..< 10]"
  by code_simp

lemma small_digit:
  assumes "0 \<le> n" and "n < 10"
  shows "''0123456789abcdef'' ! nat n \<in> set DEC_DIGITS
         \<and> digit_val (''0123456789abcdef'' ! nat n) = n"
proof -
  from assms have "nat n \<in> set [0 ..< 10]" by simp
  with small_digits_table
  have "''0123456789abcdef'' ! nat n \<in> set DEC_DIGITS
        \<and> digit_val (''0123456789abcdef'' ! nat n) = int (nat n)"
    unfolding list_all_iff by blast
  with assms(1) show ?thesis by simp
qed

lemma str_base_digits:
  "b = 10 \<Longrightarrow> 0 \<le> n \<Longrightarrow> list_all (\<lambda>c. c \<in> set DEC_DIGITS) (str_base b n)
               \<and> str_base b n \<noteq> [] \<and> int_of_digits 10 (str_base b n) = n"
proof (induction b n rule: str_base.induct)
  case (1 b n)
  note b = \<open>b = 10\<close>
  show ?case
  proof (cases "n < 10")
    case True
    then have e: "str_base 10 n = [''0123456789abcdef'' ! nat n]"
      by (subst str_base.simps) simp
    show ?thesis
      unfolding b e using "1.prems" True small_digit [of n] by (simp add: int_of_digits_def)
  next
    case False
    then have ih: "list_all (\<lambda>c. c \<in> set DEC_DIGITS) (str_base 10 (n div 10))
               \<and> str_base 10 (n div 10) \<noteq> [] \<and> int_of_digits 10 (str_base 10 (n div 10)) = n div 10"
      using "1.IH" "1.prems" b by simp
    have m: "0 \<le> n mod 10" "n mod 10 < 10" by simp_all
    have e: "str_base 10 n = str_base 10 (n div 10) @ [''0123456789abcdef'' ! nat (n mod 10)]"
      using False by (subst str_base.simps) simp
    show ?thesis
      unfolding b e using ih small_digit [OF m] by (simp add: int_of_digits_snoc)
  qed
qed

lemma str_nat_digits:
  "0 \<le> n \<Longrightarrow> list_all (\<lambda>c. c \<in> set DEC_DIGITS) (str_base 10 n)
               \<and> str_base 10 n \<noteq> [] \<and> int_of_digits 10 (str_base 10 n) = n"
  by (rule str_base_digits) simp_all

lemma prefix_from_prefix_string_str_int:
  assumes "0 \<le> m" and "m \<le> int bits"
  shows "prefix_from_prefix_string bits (str_int m) = Some (nat m)"
  using assms str_nat_digits [of m]
  by (simp add: prefix_from_prefix_string_def str_int_def str_nat_def)

lemma str_int_no_slash: "0 \<le> m \<Longrightarrow> CHR ''/'' \<notin> set (str_int m)"
proof
  assume "0 \<le> m" and "CHR ''/'' \<in> set (str_int m)"
  with str_nat_digits [of m] have "CHR ''/'' \<in> set DEC_DIGITS"
    by (auto simp: str_int_def str_nat_def list_all_iff)
  then show False by (simp add: DEC_DIGITS_def)
qed

lemma split_address:
  assumes "CHR ''/'' \<notin> set ip" and "0 \<le> m"
  shows "split_optional_netmask (ip @ CHR ''/'' # str_int m) = Some [ip, str_int m]"
proof -
  have "split_on CHR ''/'' (ip @ CHR ''/'' # str_int m) = ip # split_on CHR ''/'' (str_int m)"
    using assms(1) by (rule split_on_append)
  also have "split_on CHR ''/'' (str_int m) = [str_int m]"
    using str_int_no_slash [OF assms(2)] by (rule split_on_absent)
  finally show ?thesis by (simp add: split_optional_netmask_def)
qed

subsection \<open>The netmask\<close>

lemma bit_ip_int_from_prefix:
  assumes "p \<le> bits"
  shows "bit (ip_int_from_prefix bits p) i \<longleftrightarrow> bits - p \<le> i \<and> i < bits"
proof -
  have m: "(2::int) ^ bits - 1 = mask bits" by (simp add: mask_eq_exp_minus_1)
  show ?thesis
    unfolding ip_int_from_prefix_def m
    using assms by (auto simp: bit_xor_iff bit_drop_bit_eq bit_mask_iff)
qed

lemma bit_network:
  assumes "p \<le> bits"
  shows "bit (a AND ip_int_from_prefix bits p) i \<longleftrightarrow> bit a i \<and> bits - p \<le> i \<and> i < bits"
  by (simp add: bit_and_iff bit_ip_int_from_prefix [OF assms])

subsection \<open>Dotted-quad addresses\<close>

lemma get_addr_v4:
  assumes a: "IPv4Address ip = Some a" and m: "0 \<le> m" "m \<le> 32"
  shows "get_addr ip m =
           Inr (string_from_ip_int_v4 (a AND ip_int_from_prefix 32 (nat m)) @ ''/'' @ str_int m)"
proof -
  from a have ns: "CHR ''/'' \<notin> set ip"
    by (auto simp: IPv4Address_def split: if_splits)
  have p: "make_netmask_v4 (str_int m) = Some (nat m)"
    using prefix_from_prefix_string_str_int [of m 32] m by (simp add: make_netmask_v4_def)
  have "IPv4Network (ip @ ''/'' @ str_int m) =
          Some (string_from_ip_int_v4 (a AND ip_int_from_prefix 32 (nat m)))"
    by (simp add: IPv4Network_def split_address [OF ns m(1)] a p)
  then show ?thesis by (simp add: get_addr_def ip_network_address_def)
qed

subsection \<open>A colon-hexadecimal address is no dotted quad\<close>

lemma those_Some_all: "those xs = Some ys \<Longrightarrow> x \<in> set xs \<Longrightarrow> x \<noteq> None"
proof (induction xs arbitrary: ys)
  case Nil
  then show ?case by simp
next
  case (Cons z xs)
  then show ?case by (auto split: option.splits)
qed

lemma parse_octet_chars: "parse_octet s \<noteq> None \<Longrightarrow> x \<in> set s \<Longrightarrow> x \<in> set DEC_DIGITS"
  by (auto simp: parse_octet_def list_all_iff split: if_splits)

lemma v4_chars:
  assumes "ip_int_from_string_v4 s = Some a" and "x \<in> set s"
  shows "x = CHR ''.'' \<or> x \<in> set DEC_DIGITS"
proof -
  from assms(1) obtain bs where t: "those (map parse_octet (split_on CHR ''.'' s)) = Some bs"
    by (auto simp: ip_int_from_string_v4_def Let_def split: if_splits option.splits)
  from split_on_chars [OF assms(2), of "CHR ''.''"] show ?thesis
  proof
    assume "x = CHR ''.''" then show ?thesis by simp
  next
    assume "\<exists>p \<in> set (split_on CHR ''.'' s). x \<in> set p"
    then obtain p where p: "p \<in> set (split_on CHR ''.'' s)" "x \<in> set p" by blast
    from p(1) have "parse_octet p \<in> set (map parse_octet (split_on CHR ''.'' s))" by simp
    with t have "parse_octet p \<noteq> None" by (rule those_Some_all)
    with p(2) show ?thesis using parse_octet_chars by blast
  qed
qed

lemma v6_has_colon:
  assumes "ip_int_from_string_v6 s = Some a"
  shows "CHR '':'' \<in> set s"
proof -
  from assms have "\<not> length (split_on CHR '':'' s) < 3"
    by (auto simp: ip_int_from_string_v6_def split: if_splits)
  then have "length (split_on CHR '':'' s) \<ge> 2" by simp
  then show ?thesis by (rule split_on_length_ge2)
qed

lemma IPv6_not_IPv4:
  assumes "IPv6Address ip = Some (a, scope)"
  shows "IPv4Address ip = None"
proof (rule ccontr)
  assume "IPv4Address ip \<noteq> None"
  then obtain b where b: "ip_int_from_string_v4 ip = Some b"
    by (auto simp: IPv4Address_def split: if_splits)
  from assms obtain ad where s: "split_scope_id ip = Some (ad, scope)"
    and v: "ip_int_from_string_v6 ad = Some a"
    by (auto simp: IPv6Address_def split: if_splits option.splits)
  from s have "ad = takeWhile (\<lambda>c. c \<noteq> CHR ''%'') ip"
    by (auto simp: split_scope_id_def Let_def split: if_splits)
  then have "set ad \<subseteq> set ip" by (auto dest: set_takeWhileD)
  with v6_has_colon [OF v] have "CHR '':'' \<in> set ip" by blast
  with v4_chars [OF b] have "CHR '':'' = CHR ''.'' \<or> CHR '':'' \<in> set DEC_DIGITS" by blast
  then show False by (simp add: DEC_DIGITS_def)
qed

lemma get_addr_v6:
  assumes a: "IPv6Address ip = Some (a, scope)" and m: "0 \<le> m" "m \<le> 128"
  shows "get_addr ip m =
           Inr (string_from_ip_int_v6 (a AND ip_int_from_prefix 128 (nat m))
                @ (if a AND ip_int_from_prefix 128 (nat m) = a
                   then (case scope of None \<Rightarrow> [] | Some sc \<Rightarrow> ''%'' @ sc) else [])
                @ ''/'' @ str_int m)"
proof -
  from a have ns: "CHR ''/'' \<notin> set ip"
    by (auto simp: IPv6Address_def split: if_splits)
  have p: "prefix_from_prefix_string 128 (str_int m) = Some (nat m)"
    using prefix_from_prefix_string_str_int [of m 128] m by simp
  have v4: "IPv4Network (ip @ ''/'' @ str_int m) = None"
    by (simp add: IPv4Network_def split_address [OF ns m(1)] IPv6_not_IPv4 [OF a])
  have v6: "IPv6Network (ip @ ''/'' @ str_int m) =
          Some (string_from_ip_int_v6 (a AND ip_int_from_prefix 128 (nat m))
                @ (if a AND ip_int_from_prefix 128 (nat m) = a
                   then (case scope of None \<Rightarrow> [] | Some sc \<Rightarrow> ''%'' @ sc) else []))"
    by (cases scope) (simp_all add: IPv6Network_def split_address [OF ns m(1)] a p)
  show ?thesis using v4 v6 by (simp add: get_addr_def ip_network_address_def)
qed

text \<open>
  Claim C6, as amended. For every address that parses (as IPv4 or as IPv6) and every mask
  length in the range of its family, \<^verbatim>\<open>get_addr\<close> returns the network address under the
  mask, printed, followed by a slash and the mask length: the host bits of the address
  are zero in it and the network bits are those of the address, which need not be a
  network address itself. (The library prints an IPv6 network address with its scope id
  when the address had one and already was a network address.) In particular
  \<^verbatim>\<open>get_addr("8.8.8.8", 24) == "8.8.8.0/24"\<close> and
  \<^verbatim>\<open>get_addr("2001:db8::1", 32) == "2001:db8::/32"\<close>.
\<close>

theorem get_addr_network_prefix:
  "(IPv4Address ip = Some a4 \<and> 0 \<le> mask_len \<and> mask_len \<le> 32 \<longrightarrow>
      get_addr ip mask_len =
        Inr (string_from_ip_int_v4 (a4 AND ip_int_from_prefix 32 (nat mask_len))
             @ ''/'' @ str_int mask_len)
      \<and> (\<forall>i. bit (a4 AND ip_int_from_prefix 32 (nat mask_len)) i
               \<longleftrightarrow> bit a4 i \<and> 32 - nat mask_len \<le> i \<and> i < 32))
   \<and> (IPv6Address ip = Some (a6, scope) \<and> 0 \<le> mask_len \<and> mask_len \<le> 128 \<longrightarrow>
      get_addr ip mask_len =
        Inr (string_from_ip_int_v6 (a6 AND ip_int_from_prefix 128 (nat mask_len))
             @ (if a6 AND ip_int_from_prefix 128 (nat mask_len) = a6
                then (case scope of None \<Rightarrow> [] | Some sc \<Rightarrow> ''%'' @ sc) else [])
             @ ''/'' @ str_int mask_len)
      \<and> (\<forall>i. bit (a6 AND ip_int_from_prefix 128 (nat mask_len)) i
               \<longleftrightarrow> bit a6 i \<and> 128 - nat mask_len \<le> i \<and> i < 128))
   \<and> get_addr ''8.8.8.8'' 24 = Inr ''8.8.8.0/24''
   \<and> get_addr ''2001:db8::1'' 32 = Inr ''2001:db8::/32''"
proof -
  have v4: "IPv4Address ip = Some a4 \<and> 0 \<le> mask_len \<and> mask_len \<le> 32 \<longrightarrow>
      get_addr ip mask_len =
        Inr (string_from_ip_int_v4 (a4 AND ip_int_from_prefix 32 (nat mask_len))
             @ ''/'' @ str_int mask_len)
      \<and> (\<forall>i. bit (a4 AND ip_int_from_prefix 32 (nat mask_len)) i
               \<longleftrightarrow> bit a4 i \<and> 32 - nat mask_len \<le> i \<and> i < 32)"
  proof
    assume h: "IPv4Address ip = Some a4 \<and> 0 \<le> mask_len \<and> mask_len \<le> 32"
    then have "nat mask_len \<le> 32" by linarith
    then have "\<forall>i. bit (a4 AND ip_int_from_prefix 32 (nat mask_len)) i
               \<longleftrightarrow> bit a4 i \<and> 32 - nat mask_len \<le> i \<and> i < 32"
      by (simp add: bit_network)
    moreover from h have "get_addr ip mask_len =
        Inr (string_from_ip_int_v4 (a4 AND ip_int_from_prefix 32 (nat mask_len))
             @ ''/'' @ str_int mask_len)"
      by (simp add: get_addr_v4)
    ultimately show "get_addr ip mask_len =
        Inr (string_from_ip_int_v4 (a4 AND ip_int_from_prefix 32 (nat mask_len))
             @ ''/'' @ str_int mask_len)
      \<and> (\<forall>i. bit (a4 AND ip_int_from_prefix 32 (nat mask_len)) i
               \<longleftrightarrow> bit a4 i \<and> 32 - nat mask_len \<le> i \<and> i < 32)"
      by (rule conjI [rotated])
  qed
  have v6: "IPv6Address ip = Some (a6, scope) \<and> 0 \<le> mask_len \<and> mask_len \<le> 128 \<longrightarrow>
      get_addr ip mask_len =
        Inr (string_from_ip_int_v6 (a6 AND ip_int_from_prefix 128 (nat mask_len))
             @ (if a6 AND ip_int_from_prefix 128 (nat mask_len) = a6
                then (case scope of None \<Rightarrow> [] | Some sc \<Rightarrow> ''%'' @ sc) else [])
             @ ''/'' @ str_int mask_len)
      \<and> (\<forall>i. bit (a6 AND ip_int_from_prefix 128 (nat mask_len)) i
               \<longleftrightarrow> bit a6 i \<and> 128 - nat mask_len \<le> i \<and> i < 128)"
  proof
    assume h: "IPv6Address ip = Some (a6, scope) \<and> 0 \<le> mask_len \<and> mask_len \<le> 128"
    then have "nat mask_len \<le> 128" by linarith
    then have "\<forall>i. bit (a6 AND ip_int_from_prefix 128 (nat mask_len)) i
               \<longleftrightarrow> bit a6 i \<and> 128 - nat mask_len \<le> i \<and> i < 128"
      by (simp add: bit_network)
    moreover from h have "get_addr ip mask_len =
        Inr (string_from_ip_int_v6 (a6 AND ip_int_from_prefix 128 (nat mask_len))
             @ (if a6 AND ip_int_from_prefix 128 (nat mask_len) = a6
                then (case scope of None \<Rightarrow> [] | Some sc \<Rightarrow> ''%'' @ sc) else [])
             @ ''/'' @ str_int mask_len)"
      using get_addr_v6 [of ip a6 scope mask_len] by blast
    ultimately show "get_addr ip mask_len =
        Inr (string_from_ip_int_v6 (a6 AND ip_int_from_prefix 128 (nat mask_len))
             @ (if a6 AND ip_int_from_prefix 128 (nat mask_len) = a6
                then (case scope of None \<Rightarrow> [] | Some sc \<Rightarrow> ''%'' @ sc) else [])
             @ ''/'' @ str_int mask_len)
      \<and> (\<forall>i. bit (a6 AND ip_int_from_prefix 128 (nat mask_len)) i
               \<longleftrightarrow> bit a6 i \<and> 128 - nat mask_len \<le> i \<and> i < 128)"
      by (rule conjI [rotated])
  qed
  have e4: "get_addr ''8.8.8.8'' 24 = Inr ''8.8.8.0/24''" by code_simp
  have e6: "get_addr ''2001:db8::1'' 32 = Inr ''2001:db8::/32''" by code_simp
  from v4 v6 e4 e6 show ?thesis by (intro conjI)
qed

theorem get_addr_network_prefix_witness:
  "IPv4Address ''8.8.8.8'' = Some 134744072 \<and> (0::int) \<le> 24 \<and> (24::int) \<le> 32
   \<and> get_addr ''8.8.8.8'' 24 =
       Inr (string_from_ip_int_v4 (134744072 AND ip_int_from_prefix 32 (nat 24)) @ ''/'' @ str_int 24)
   \<and> string_from_ip_int_v4 (134744072 AND ip_int_from_prefix 32 (nat 24)) = ''8.8.8.0''
   \<and> IPv6Address ''2001:db8::1'' = Some (42540766411282592856903984951653826561, None)
   \<and> (0::int) \<le> 32 \<and> (32::int) \<le> 128
   \<and> get_addr ''2001:db8::1'' 32 =
       Inr (string_from_ip_int_v6
              (42540766411282592856903984951653826561 AND ip_int_from_prefix 128 (nat 32))
            @ (if 42540766411282592856903984951653826561 AND ip_int_from_prefix 128 (nat 32)
                  = 42540766411282592856903984951653826561
               then (case None of None \<Rightarrow> [] | Some sc \<Rightarrow> ''%'' @ sc) else [])
            @ ''/'' @ str_int 32)
   \<and> string_from_ip_int_v6
        (42540766411282592856903984951653826561 AND ip_int_from_prefix 128 (nat 32)) = ''2001:db8::''"
proof -
  have p4: "IPv4Address ''8.8.8.8'' = Some 134744072" by code_simp
  have p6: "IPv6Address ''2001:db8::1'' = Some (42540766411282592856903984951653826561, None)"
    by code_simp
  have s4: "string_from_ip_int_v4 (134744072 AND ip_int_from_prefix 32 (nat 24)) = ''8.8.8.0''"
    by code_simp
  have s6: "string_from_ip_int_v6
        (42540766411282592856903984951653826561 AND ip_int_from_prefix 128 (nat 32)) = ''2001:db8::''"
    by code_simp
  have r4: "(0::int) \<le> 24 \<and> (24::int) \<le> 32" by simp
  have r6: "(0::int) \<le> 32 \<and> (32::int) \<le> 128" by simp
  note t4 = get_addr_network_prefix [of "''8.8.8.8''" 134744072 24, THEN conjunct1, THEN mp,
              OF conjI [OF p4 r4], THEN conjunct1]
  note t6 = get_addr_network_prefix [of "''2001:db8::1''" _ 32 42540766411282592856903984951653826561 None,
              THEN conjunct2, THEN conjunct1, THEN mp, OF conjI [OF p6 r6], THEN conjunct1]
  from p4 r4 t4 s4 p6 r6 t6 s6 show ?thesis by (intro conjI) simp_all
qed

text \<open>
  The claim as the specification states it fails in its first example: the network of
  \<^verbatim>\<open>8.8.8.8\<close> under a mask of 24 bits is \<^verbatim>\<open>8.8.8.0\<close>, and \<^verbatim>\<open>8.8.0.0\<close> is not what
  \<^verbatim>\<open>get_addr\<close> returns.
\<close>

theorem get_addr_example_counterexample:
  "get_addr ''8.8.8.8'' 24 = Inr ''8.8.8.0/24'' \<and> get_addr ''8.8.8.8'' 24 \<noteq> Inr ''8.8.0.0/24''"
  by code_simp

end
